theory Spec2Isabelle
  imports Main "HOL-Library.AList" "HOL-Library.Sublist"
begin

section \<open>The host: process, file system, errors\<close>

text \<open>
  The gulpfile of sd-builder wires external tools together. The embedding keeps what the
  gulpfile itself decides (paths, options, the order of the pipes, the error handlers, the
  task graph) and takes the tools it calls as the fields of a record of externals.
\<close>

type_synonym path = string

text \<open>\<^verbatim>\<open>process.cwd()\<close> and \<^verbatim>\<open>process.env\<close>.\<close>

record process =
  cwd :: path
  env :: "(string \<times> string) list"

datatype error =
    ENOENT path
  | SyntaxError string
  | InvalidGlob
  | DotenvError string
  | WebpackError string
  | ESLintError nat
  | MochaError string
  | UnknownTaskError string

text \<open>A natural number in decimal; \<^verbatim>\<open>error.message\<close>.\<close>

fun decimal :: "nat \<Rightarrow> string" where
  "decimal n =
     (if n < 10 then [char_of (48 + n)] else decimal (n div 10) @ [char_of (48 + n mod 10)])"

declare decimal.simps [simp del]

fun message :: "error \<Rightarrow> string" where
  "message (ENOENT f) = ''ENOENT: no such file or directory, open '' @ f"
| "message (SyntaxError m) = m"
| "message InvalidGlob = ''Invalid glob argument: undefined''"
| "message (DotenvError m) = m"
| "message (WebpackError m) = m"
| "message (ESLintError n) =
     ''Failed with '' @ decimal n @ (if n = 1 then '' error'' else '' errors'')"
| "message (MochaError m) = m"
| "message (UnknownTaskError n) = ''Unknown task '' @ n"

text \<open>
  The file system: the regular files with their contents (an association list, read with
  \<open>map_of\<close>) and the directories that exist.
\<close>

record filesystem =
  files :: "(path \<times> string) list"
  dirs :: "path list"

definition readFileSync :: "path \<Rightarrow> filesystem \<Rightarrow> error + string" where
  "readFileSync f fsys =
     (case map_of (files fsys) f of None \<Rightarrow> Inl (ENOENT f) | Some c \<Rightarrow> Inr c)"

definition dirname :: "path \<Rightarrow> path" where
  "dirname f = rev (tl (dropWhile (\<lambda>c. c \<noteq> CHR ''/'') (rev f)))"

text \<open>\<^verbatim>\<open>fs.writeFileSync\<close> throws when the directory of the file does not exist.\<close>

definition writeFileSync :: "path \<Rightarrow> string \<Rightarrow> filesystem \<Rightarrow> error + filesystem" where
  "writeFileSync f c fsys =
     (if dirname f \<in> set (dirs fsys)
      then Inr (fsys\<lparr>files := AList.update f c (files fsys)\<rparr>)
      else Inl (ENOENT f))"

text \<open>The directory \<open>d\<close> and every directory above it, outermost first.\<close>

fun dir_chain :: "path \<Rightarrow> path \<Rightarrow> path list" where
  "dir_chain acc [] = [acc]"
| "dir_chain acc (c # cs) =
     (if c = CHR ''/'' \<and> acc \<noteq> [] then acc # dir_chain (acc @ [c]) cs
      else dir_chain (acc @ [c]) cs)"

definition mkdirp_sync :: "path \<Rightarrow> filesystem \<Rightarrow> filesystem" where
  "mkdirp_sync d fsys = fsys\<lparr>dirs := List.union (dir_chain [] d) (dirs fsys)\<rparr>"

text \<open>A file travelling through a gulp pipeline (a vinyl object).\<close>

record vinyl =
  relative :: string
  contents :: string

text \<open>The dependency manifest \<^verbatim>\<open>deps.json\<close>; a key that is missing reads as \<^verbatim>\<open>undefined\<close>.\<close>

record deps =
  js :: "string list option"
  css :: "string list option"
  fonts :: "string list option"

record webpack_loader =
  loader_test :: string
  loader_exclude :: "string option"
  loader :: string

record webpack_config =
  entry_app :: path
  entry_vendor :: "string list option"
  devtool :: string
  output_filename :: path
  module_loaders :: "webpack_loader list"
  resolve_root :: path
  resolve_extensions :: "string list"
  dedupe_plugin :: bool
  commons_chunk :: "string \<times> path"

record compiled =
  app_code :: string
  app_map :: string
  vendor_code :: string
  vendor_map :: string

record lint_message =
  severity :: nat
  rule :: string

record mocha_options =
  compilers :: string
  mocha_env :: "(string \<times> string) list"

text \<open>
  The tools the gulpfile calls and does not implement: the parsers, the glob matcher behind
  \<^verbatim>\<open>gulp.src\<close>, the webpack compilation, ESLint with its formatter, the mocha child process,
  and whether the terminal takes colours.
\<close>

record externals =
  JSON_parse :: "string \<Rightarrow> error + deps"
  JSON_stringify :: "(string \<times> string) list \<Rightarrow> nat \<Rightarrow> string"
  dotenv_parse :: "string \<Rightarrow> error + (string \<times> string) list"
  glob :: "string list \<Rightarrow> filesystem \<Rightarrow> vinyl list"
  webpack_compile :: "webpack_config \<Rightarrow> filesystem \<Rightarrow> error + compiled"
  eslint :: "vinyl \<Rightarrow> lint_message list"
  eslint_formatter :: "(vinyl \<times> lint_message list) list \<Rightarrow> string list"
  spawnMocha :: "mocha_options \<Rightarrow> vinyl list \<Rightarrow> error option"
  supports_color :: bool

section \<open>Constants of the gulpfile\<close>

definition NODE_ENV :: "process \<Rightarrow> string" where
  "NODE_ENV p = (case map_of (env p) ''NODE_ENV'' of None \<Rightarrow> ''development'' | Some v \<Rightarrow> v)"

definition testDir :: "process \<Rightarrow> path" where
  "testDir p = cwd p @ ''/test''"

definition appDir :: "process \<Rightarrow> path" where
  "appDir p = cwd p @ ''/app''"

definition buildDir :: "process \<Rightarrow> path" where
  "buildDir p = cwd p @ ''/build''"

definition depsPath :: "process \<Rightarrow> path" where
  "depsPath p = cwd p @ ''/deps.json''"

section \<open>The state the tasks act on\<close>

text \<open>The options object handed to \<^verbatim>\<open>browserSync\<close>.\<close>

record browserSync_options =
  baseDir :: path
  middleware :: "string list"
  watched_files :: string
  port :: nat
  ghostMode :: bool
  injectChanges :: bool
  notify :: bool
  open_browser :: bool
  reloadDebounce :: nat

text \<open>What \<^verbatim>\<open>gulp.watch\<close> is given to call: one registered task, or a parallel group.\<close>

datatype callback = Task string | Parallel "string list"

text \<open>
  The file system, the lines printed so far, the dev servers started and the watch bindings
  made (globs and callback).
\<close>

record state =
  fs :: filesystem
  console :: "string list"
  servers :: "browserSync_options list"
  watchers :: "(string list \<times> callback) list"

text \<open>
  A task function runs on the state; it throws, or the stream or promise it returns fails
  (\<open>Some e\<close>), or it completes (\<open>None\<close>).
\<close>

type_synonym action = "state \<Rightarrow> error option \<times> state"

definition console_log :: "string \<Rightarrow> state \<Rightarrow> state" where
  "console_log line s = s\<lparr>console := console s @ [line]\<rparr>"

section \<open>The gulp plugins, as far as the gulpfile relies on them\<close>

text \<open>\<^verbatim>\<open>gulp.src\<close> throws on a glob that is \<^verbatim>\<open>undefined\<close>; otherwise it reads the matches.\<close>

definition gulp_src :: "externals \<Rightarrow> string list option \<Rightarrow> filesystem \<Rightarrow> error + vinyl list" where
  "gulp_src x globs fsys =
     (case globs of None \<Rightarrow> Inl InvalidGlob | Some gs \<Rightarrow> Inr (glob x gs fsys))"

text \<open>\<^verbatim>\<open>gp.rename(name)\<close> with a string: the file gets that name below its base.\<close>

definition rename :: "string \<Rightarrow> vinyl \<Rightarrow> vinyl" where
  "rename name f = f\<lparr>relative := name\<rparr>"

fun join_lines :: "string list \<Rightarrow> string" where
  "join_lines [] = []"
| "join_lines [l] = l"
| "join_lines (l # ls) = l @ [CHR 0x0A] @ join_lines ls"

text \<open>\<^verbatim>\<open>gp.concat(name)\<close>: one file of the joined contents, none when nothing came in.\<close>

definition concat_files :: "string \<Rightarrow> vinyl list \<Rightarrow> vinyl list" where
  "concat_files name vs =
     (if vs = [] then [] else [\<lparr>relative = name, contents = join_lines (map contents vs)\<rparr>])"

text \<open>Writing a file, creating the directories above it first.\<close>

definition write_out :: "path \<Rightarrow> string \<Rightarrow> filesystem \<Rightarrow> filesystem" where
  "write_out f c fsys =
     (mkdirp_sync (dirname f) fsys)\<lparr>files := AList.update f c (files fsys)\<rparr>"

definition dest_path :: "path \<Rightarrow> string \<Rightarrow> path" where
  "dest_path d rel = (if d \<noteq> [] \<and> last d = CHR ''/'' then d @ rel else d @ ''/'' @ rel)"

text \<open>\<^verbatim>\<open>gulp.dest(dir)\<close>: every file is written below \<open>dir\<close> at its relative path.\<close>

definition gulp_dest :: "path \<Rightarrow> vinyl list \<Rightarrow> filesystem \<Rightarrow> filesystem" where
  "gulp_dest d vs fsys =
     fold (\<lambda>f. write_out (dest_path d (relative f)) (contents f)) vs fsys"

section \<open>Builders\<close>

definition buildMainHtml :: "externals \<Rightarrow> process \<Rightarrow> action" where
  "buildMainHtml x p s =
     (None, s\<lparr>fs := gulp_dest (buildDir p @ ''/'')
                     (map (rename ''index.html'') (glob x [appDir p @ ''/main.html''] (fs s)))
                     (fs s)\<rparr>)"

text \<open>The configuration object of the webpack compiler.\<close>

definition webpack :: "process \<Rightarrow> deps \<Rightarrow> webpack_config" where
  "webpack p d =
     \<lparr>entry_app = appDir p @ ''/main.jsx'',
      entry_vendor = js d,
      devtool = ''source-map'',
      output_filename = buildDir p @ ''/_assets/js/app.js'',
      module_loaders =
        [\<lparr>loader_test = CHR 0x5C # ''.jsx?$'', loader_exclude = Some ''node_modules'', loader = ''babel''\<rparr>,
         \<lparr>loader_test = CHR 0x5C # ''.json$'', loader_exclude = None, loader = ''json''\<rparr>],
      resolve_root = appDir p,
      resolve_extensions = ['''', ''.js'', ''.json'', ''.jsx''],
      dedupe_plugin = True,
      commons_chunk = (''vendor'', buildDir p @ ''/_assets/js/vendor.js'')\<rparr>"

text \<open>
  The files one run of the compiler emits: the application chunk at \<^verbatim>\<open>output.filename\<close>,
  the commons chunk at the file name given to its plugin, and with
  \<^verbatim>\<open>devtool: "source-map"\<close> a map next to each.
\<close>

definition emitted :: "webpack_config \<Rightarrow> compiled \<Rightarrow> (path \<times> string) list" where
  "emitted c out =
     (if devtool c = ''source-map''
      then [(output_filename c, app_code out),
            (output_filename c @ ''.map'', app_map out),
            (snd (commons_chunk c), vendor_code out),
            (snd (commons_chunk c) @ ''.map'', vendor_map out)]
      else [(output_filename c, app_code out),
            (snd (commons_chunk c), vendor_code out)])"

text \<open>\<^verbatim>\<open>promisify(::compiler.run)\<close>: the promise fails with the error of the run.\<close>

definition compiler_run :: "externals \<Rightarrow> webpack_config \<Rightarrow> action" where
  "compiler_run x c s =
     (case webpack_compile x c (fs s) of
        Inl e \<Rightarrow> (Some e, s)
      | Inr out \<Rightarrow>
          (None, s\<lparr>fs := fold (\<lambda>(f, code). write_out f code) (emitted c out) (fs s)\<rparr>))"

text \<open>
  What loading the gulpfile leaves behind for its tasks: the compiler that the function
  expression around \<^verbatim>\<open>buildAllScripts\<close> builds when it is called, which is while the module
  loads.
\<close>

record gulpfile =
  compiler :: webpack_config

definition load_gulpfile :: "externals \<Rightarrow> process \<Rightarrow> state \<Rightarrow> error + (gulpfile \<times> state)" where
  "load_gulpfile x p s =
     (case readFileSync (depsPath p) (fs s) of
        Inl e \<Rightarrow> Inl e
      | Inr manifest \<Rightarrow>
          (case JSON_parse x manifest of
             Inl e \<Rightarrow> Inl e
           | Inr d \<Rightarrow>
               Inr (\<lparr>compiler = webpack p d\<rparr>,
                    s\<lparr>fs := mkdirp_sync (buildDir p @ ''/_assets/js'') (fs s)\<rparr>)))"

definition buildAllScripts :: "externals \<Rightarrow> gulpfile \<Rightarrow> action" where
  "buildAllScripts x m s = compiler_run x (compiler m) s"

definition buildAppAssets :: "externals \<Rightarrow> process \<Rightarrow> action" where
  "buildAppAssets x p s =
     (None, s\<lparr>fs := gulp_dest (buildDir p @ ''/_assets/'')
                     (glob x [appDir p @ ''/assets/**/*''] (fs s)) (fs s)\<rparr>)"

text \<open>The body of the \<^verbatim>\<open>try\<close> block of \<^verbatim>\<open>buildDevAppConfig\<close>.\<close>

definition writeAppConfig :: "externals \<Rightarrow> process \<Rightarrow> state \<Rightarrow> error + state" where
  "writeAppConfig x p s =
     (case readFileSync (cwd p @ ''/.env'') (fs s) of
        Inl e \<Rightarrow> Inl e
      | Inr envfile \<Rightarrow>
          (case dotenv_parse x envfile of
             Inl e \<Rightarrow> Inl e
           | Inr config \<Rightarrow>
               (let code = ''window.APP_CONFIG = '' @ JSON_stringify x config 4 @ '';''
                in case writeFileSync (buildDir p @ ''/app-config.js'') code (fs s) of
                     Inl e \<Rightarrow> Inl e
                   | Inr fsys \<Rightarrow> Inr (s\<lparr>fs := fsys\<rparr>))))"

definition buildDevAppConfig :: "externals \<Rightarrow> process \<Rightarrow> action" where
  "buildDevAppConfig x p s =
     (if NODE_ENV p \<noteq> ''development'' then (None, s)
      else (case writeAppConfig x p s of
              Inr s' \<Rightarrow> (None, s')
            | Inl e \<Rightarrow>
                (None, console_log (message e) (console_log ''Error building app config'' s))))"

text \<open>Reading the manifest inside a task: \<^verbatim>\<open>JSON.parse(fs.readFileSync(depsPath))\<close>.\<close>

definition read_deps :: "externals \<Rightarrow> process \<Rightarrow> filesystem \<Rightarrow> error + deps" where
  "read_deps x p fsys =
     (case readFileSync (depsPath p) fsys of
        Inl e \<Rightarrow> Inl e
      | Inr manifest \<Rightarrow> JSON_parse x manifest)"

definition buildVendorStyles :: "externals \<Rightarrow> process \<Rightarrow> action" where
  "buildVendorStyles x p s =
     (case read_deps x p (fs s) of
        Inl e \<Rightarrow> (Some e, s)
      | Inr d \<Rightarrow>
          (case gulp_src x (css d) (fs s) of
             Inl e \<Rightarrow> (Some e, s)
           | Inr vs \<Rightarrow>
               (None, s\<lparr>fs := gulp_dest (buildDir p @ ''/_assets/css/'')
                               (concat_files ''vendor.css'' vs) (fs s)\<rparr>)))"

definition buildVendorFonts :: "externals \<Rightarrow> process \<Rightarrow> action" where
  "buildVendorFonts x p s =
     (case read_deps x p (fs s) of
        Inl e \<Rightarrow> (Some e, s)
      | Inr d \<Rightarrow>
          (case gulp_src x (fonts d) (fs s) of
             Inl e \<Rightarrow> (Some e, s)
           | Inr vs \<Rightarrow>
               (None, s\<lparr>fs := gulp_dest (buildDir p @ ''/_assets/fonts/'') vs (fs s)\<rparr>)))"

section \<open>Linter\<close>

definition lint_srcs :: "process \<Rightarrow> string list" where
  "lint_srcs p =
     [appDir p @ ''/**/*.js'',
      appDir p @ ''/**/*.jsx'',
      ''!'' @ appDir p @ ''/assets/**/*'',
      testDir p @ ''/**/*.js'',
      testDir p @ ''/**/*.jsx'']"

text \<open>
  ESLint reports a message with severity 1 (warning) or 2 (error).
  \<^verbatim>\<open>gp.eslint.failAfterError()\<close> counts the errors of all files and fails the stream, once
  every file has passed, when the count is not zero.
\<close>

definition errorCount :: "(vinyl \<times> lint_message list) list \<Rightarrow> nat" where
  "errorCount results = length (filter (\<lambda>m. severity m = 2) (concat (map snd results)))"

definition failAfterError :: "(vinyl \<times> lint_message list) list \<Rightarrow> error option" where
  "failAfterError results =
     (if errorCount results = 0 then None else Some (ESLintError (errorCount results)))"

text \<open>
  The pipes in their order: \<^verbatim>\<open>eslint()\<close> attaches the messages to each file,
  \<^verbatim>\<open>eslint.format()\<close> prints the report of the formatter, \<^verbatim>\<open>eslint.failAfterError()\<close> fails.
\<close>

definition lint :: "externals \<Rightarrow> process \<Rightarrow> action" where
  "lint x p s =
     (let results = map (\<lambda>f. (f, eslint x f)) (glob x (lint_srcs p) (fs s));
          s' = s\<lparr>console := console s @ eslint_formatter x results\<rparr>
      in (failAfterError results, s'))"

section \<open>Testers\<close>

text \<open>
  A listener on the \<^verbatim>\<open>"error"\<close> event of a stream: the one the \<^verbatim>\<open>test\<close> task attaches, which
  drops its argument and emits \<^verbatim>\<open>"end"\<close>, and the one of the task runner, which fails the
  task with the error.
\<close>

datatype listener = Swallow_errors | Reject_task

datatype event = Stream_end | Stream_error error

definition test_options :: "process \<Rightarrow> mocha_options" where
  "test_options p =
     \<lparr>compilers = ''jsx:babel-register'',
      mocha_env = [(''NODE_ENV'', ''test''), (''NODE_PATH'', appDir p @ '':'' @ testDir p)]\<rparr>"

text \<open>What the stream of \<^verbatim>\<open>gp.spawnMocha\<close> emits when the mocha process has exited.\<close>

definition mocha_event :: "externals \<Rightarrow> process \<Rightarrow> filesystem \<Rightarrow> event" where
  "mocha_event x p fsys =
     (case spawnMocha x (test_options p)
             (glob x [testDir p @ ''/**/*.js'', testDir p @ ''/**/*.jsx''] fsys) of
        None \<Rightarrow> Stream_end
      | Some e \<Rightarrow> Stream_error e)"

text \<open>
  Modelled from the spec: the task runner pro-gulp, which is not in the sources, turns the
  stream a task returns into the result of the task: ended is completed, an error is a
  failure. The listeners are called in the order they were attached, those of the task
  function before the runner's, and the result of a task is settled once: the first
  listener that settles it decides. An \<^verbatim>\<open>"error"\<close> event nobody listens to is thrown.
\<close>

fun emit_error :: "listener list \<Rightarrow> error \<Rightarrow> error option" where
  "emit_error [] e = Some e"
| "emit_error (Swallow_errors # ls) e = None"
| "emit_error (Reject_task # ls) e = Some e"

definition stream_result :: "listener list \<Rightarrow> event \<Rightarrow> error option" where
  "stream_result ls ev =
     (case ev of Stream_end \<Rightarrow> None | Stream_error e \<Rightarrow> emit_error (ls @ [Reject_task]) e)"

text \<open>
  The \<^verbatim>\<open>test\<close> task returns the mocha stream with its own listener on \<^verbatim>\<open>"error"\<close> attached.
  The report of mocha goes to the terminal from the child process, not through the
  gulpfile; it is not part of \<open>console\<close>.
\<close>

definition test :: "externals \<Rightarrow> process \<Rightarrow> action" where
  "test x p s = (stream_result [Swallow_errors] (mocha_event x p (fs s)), s)"

section \<open>Tasks to set up the development environment\<close>

definition server_options :: "process \<Rightarrow> browserSync_options" where
  "server_options p =
     \<lparr>baseDir = buildDir p,
      middleware = [''connect-history-api-fallback''],
      watched_files = buildDir p @ ''/**/*'',
      port = 8080,
      ghostMode = False,
      injectChanges = False,
      notify = False,
      open_browser = False,
      reloadDebounce = 1000\<rparr>"

definition setupDevServer :: "process \<Rightarrow> action" where
  "setupDevServer p s = (None, s\<lparr>servers := servers s @ [server_options p]\<rparr>)"

definition gulp_watch :: "string list \<Rightarrow> callback \<Rightarrow> state \<Rightarrow> state" where
  "gulp_watch globs cb s = s\<lparr>watchers := watchers s @ [(globs, cb)]\<rparr>"

text \<open>The six watch bindings, in the order \<^verbatim>\<open>setupWatchers\<close> makes them.\<close>

definition watch_bindings :: "process \<Rightarrow> (string list \<times> callback) list" where
  "watch_bindings p =
     [([appDir p @ ''/main.html''], Task ''buildMainHtml''),
      ([appDir p @ ''/.env''], Task ''buildDevAppConfig''),
      ([appDir p @ ''/**/*.jsx'', appDir p @ ''/**/*.js''],
       Parallel [''buildAllScripts'', ''test'']),
      ([appDir p @ ''/assets/**/*''], Task ''buildAppAssets''),
      ([testDir p @ ''/**/*.jsx'', testDir p @ ''/**/*.js''], Task ''test''),
      ([depsPath p],
       Parallel [''buildAllScripts'', ''buildVendorFonts'', ''buildVendorStyles'', ''test''])]"

definition setupWatchers :: "process \<Rightarrow> action" where
  "setupWatchers p s = (None, fold (\<lambda>(globs, cb). gulp_watch globs cb) (watch_bindings p) s)"

section \<open>Default task\<close>

text \<open>
  \<^verbatim>\<open>gp.util.colors\<close> wraps the text in the escape codes of the colour when the terminal takes
  colours. \<^verbatim>\<open>gp.util.log\<close> prints one line (after the time of day, which the model leaves
  out).
\<close>

definition colored :: "externals \<Rightarrow> string \<Rightarrow> string \<Rightarrow> string" where
  "colored x code t =
     (if supports_color x then CHR 0x1B # ''['' @ code @ ''m'' @ t @ CHR 0x1B # ''[39m'' else t)"

definition blue :: "externals \<Rightarrow> string \<Rightarrow> string" where
  "blue x t = colored x ''34'' t"

definition green :: "externals \<Rightarrow> string \<Rightarrow> string" where
  "green x t = colored x ''32'' t"

definition usage :: "externals \<Rightarrow> string list" where
  "usage x =
     ['''',
      ''Usage: '' @ blue x ''sd-builder [TASK]'',
      '''',
      ''Available tasks:'',
      ''  '' @ green x ''build'' @ ''    build the project'',
      ''  '' @ green x ''dev'' @ ''      set up dev environment with auto-recompiling'',
      ''  '' @ green x ''lint'' @ ''     lints application source code'',
      ''  '' @ green x ''test'' @ ''     runs tests'',
      '''']"

definition default_task :: "externals \<Rightarrow> action" where
  "default_task x s = (None, fold console_log (usage x) s)"

section \<open>The task runner and the tasks registered with it\<close>

text \<open>
  Modelled from the spec: the registry and the executor of the task runner pro-gulp, which
  is not in the sources. A failure carries the name of the task it comes from. A sequence
  runs its members one at a time, in the order declared, and stops at the first that
  fails. A parallel group lets every member settle and reports the failures of all of
  them; the model runs the members one after the other in the order declared, which is one
  of the interleavings the single-threaded event loop allows. A name that was never
  registered fails with \<open>UnknownTaskError\<close>.
\<close>

type_synonym failures = "(string \<times> error) list"

type_synonym task = "state \<Rightarrow> failures \<times> state"

definition leaf :: "string \<Rightarrow> action \<Rightarrow> task" where
  "leaf name f s = (case f s of (None, s') \<Rightarrow> ([], s') | (Some e, s') \<Rightarrow> ([(name, e)], s'))"

definition proGulp_task :: "(string \<times> task) list \<Rightarrow> string \<Rightarrow> task" where
  "proGulp_task registry name =
     (case map_of registry name of
        Some t \<Rightarrow> t
      | None \<Rightarrow> (\<lambda>s. ([(name, UnknownTaskError name)], s)))"

fun run_sequence :: "task list \<Rightarrow> task" where
  "run_sequence [] s = ([], s)"
| "run_sequence (t # ts) s =
     (case t s of (fl, s') \<Rightarrow> if fl = [] then run_sequence ts s' else (fl, s'))"

fun run_parallel :: "task list \<Rightarrow> task" where
  "run_parallel [] s = ([], s)"
| "run_parallel (t # ts) s =
     (case t s of (fl, s') \<Rightarrow> (case run_parallel ts s' of (fl', s'') \<Rightarrow> (fl @ fl', s'')))"

definition proGulp_sequence :: "(string \<times> task) list \<Rightarrow> string list \<Rightarrow> task" where
  "proGulp_sequence registry names = run_sequence (map (proGulp_task registry) names)"

definition proGulp_parallel :: "(string \<times> task) list \<Rightarrow> string list \<Rightarrow> task" where
  "proGulp_parallel registry names = run_parallel (map (proGulp_task registry) names)"

text \<open>The registry when \<^verbatim>\<open>build\<close> is declared, and when the module has loaded.\<close>

definition builders :: "externals \<Rightarrow> process \<Rightarrow> gulpfile \<Rightarrow> (string \<times> task) list" where
  "builders x p m =
     [(''buildMainHtml'', leaf ''buildMainHtml'' (buildMainHtml x p)),
      (''buildAllScripts'', leaf ''buildAllScripts'' (buildAllScripts x m)),
      (''buildAppAssets'', leaf ''buildAppAssets'' (buildAppAssets x p)),
      (''buildDevAppConfig'', leaf ''buildDevAppConfig'' (buildDevAppConfig x p)),
      (''buildVendorStyles'', leaf ''buildVendorStyles'' (buildVendorStyles x p)),
      (''buildVendorFonts'', leaf ''buildVendorFonts'' (buildVendorFonts x p))]"

definition build :: "externals \<Rightarrow> process \<Rightarrow> gulpfile \<Rightarrow> task" where
  "build x p m =
     proGulp_parallel (builders x p m)
       [''buildMainHtml'', ''buildAllScripts'', ''buildAppAssets'', ''buildDevAppConfig'',
        ''buildVendorStyles'', ''buildVendorFonts'']"

definition registry :: "externals \<Rightarrow> process \<Rightarrow> gulpfile \<Rightarrow> (string \<times> task) list" where
  "registry x p m =
     builders x p m @
     [(''build'', build x p m),
      (''test'', leaf ''test'' (test x p)),
      (''setupDevServer'', leaf ''setupDevServer'' (setupDevServer p)),
      (''setupWatchers'', leaf ''setupWatchers'' (setupWatchers p))]"

definition dev :: "externals \<Rightarrow> process \<Rightarrow> gulpfile \<Rightarrow> task" where
  "dev x p m =
     proGulp_sequence (registry x p m) [''build'', ''test'', ''setupDevServer'', ''setupWatchers'']"

text \<open>What a watch binding runs when it fires.\<close>

fun run_callback :: "externals \<Rightarrow> process \<Rightarrow> gulpfile \<Rightarrow> callback \<Rightarrow> task" where
  "run_callback x p m (Task name) = proGulp_task (registry x p m) name"
| "run_callback x p m (Parallel names) = proGulp_parallel (registry x p m) names"

section \<open>The tasks of the command line\<close>

definition gulp_tasks :: "externals \<Rightarrow> process \<Rightarrow> gulpfile \<Rightarrow> (string \<times> task) list" where
  "gulp_tasks x p m =
     [(''build'', proGulp_task (registry x p m) ''build''),
      (''lint'', leaf ''lint'' (lint x p)),
      (''test'', proGulp_task (registry x p m) ''test''),
      (''dev'', dev x p m),
      (''default'', leaf ''default'' (default_task x))]"

text \<open>
  Modelled from the spec: the command \<^verbatim>\<open>sd-builder [TASK]\<close>, whose runner is not in the
  sources. It loads the gulpfile and runs the task named, \<^verbatim>\<open>default\<close> when none is. A run
  that fails prints the name of the failing task with the message of the error and exits
  with status 1; a run that completes exits with status 0. The spec is silent on a
  gulpfile that throws while it loads; as for any module whose top level throws, the
  process prints the error and exits with status 1 before a task runs.
\<close>

definition report :: "failures \<Rightarrow> string list" where
  "report fl = map (\<lambda>(name, e). name @ '': '' @ message e) fl"

definition sd_builder :: "externals \<Rightarrow> process \<Rightarrow> string option \<Rightarrow> state \<Rightarrow> nat \<times> state" where
  "sd_builder x p arg s =
     (case load_gulpfile x p s of
        Inl e \<Rightarrow> (1, console_log (message e) s)
      | Inr (m, s1) \<Rightarrow>
          (let name = (case arg of None \<Rightarrow> ''default'' | Some n \<Rightarrow> n)
           in case map_of (gulp_tasks x p m) name of
                None \<Rightarrow> (1, console_log (''Task '' @ name @ '' is not in your gulpfile'') s1)
              | Some t \<Rightarrow>
                  (case t s1 of
                     (fl, s2) \<Rightarrow>
                       (if fl = [] then 0 else 1, s2\<lparr>console := console s2 @ report fl\<rparr>))))"

section \<open>A small project to run the tasks on\<close>

text \<open>
  A project in \<^verbatim>\<open>/p\<close> with a manifest, a page, one stylesheet, one font and an environment
  file; an empty directory; and tools that are as simple as their types allow: the glob
  matcher finds the files whose path is listed literally, every file linted draws one
  warning, and the test run fails.
\<close>

definition sample_process :: process where
  "sample_process = \<lparr>cwd = ''/p'', env = []\<rparr>"

definition production_process :: process where
  "production_process = \<lparr>cwd = ''/p'', env = [(''NODE_ENV'', ''production'')]\<rparr>"

definition basename :: "path \<Rightarrow> string" where
  "basename f = rev (takeWhile (\<lambda>c. c \<noteq> CHR ''/'') (rev f))"

definition sample_externals :: externals where
  "sample_externals =
     \<lparr>JSON_parse =
        (\<lambda>t. if t = ''bad'' then Inl (SyntaxError ''Unexpected token b'')
              else Inr \<lparr>js = Some [t], css = Some [''/p/a.css''], fonts = Some [''/p/f.woff'']\<rparr>),
      JSON_stringify = (\<lambda>kvs n. concat (map (\<lambda>(k, v). k @ '': '' @ v) kvs)),
      dotenv_parse = (\<lambda>t. Inr [(''KEY'', t)]),
      glob =
        (\<lambda>gs fsys. map (\<lambda>(f, c). \<lparr>relative = basename f, contents = c\<rparr>)
                      (filter (\<lambda>(f, c). f \<in> set gs) (files fsys))),
      webpack_compile =
        (\<lambda>c fsys. Inr \<lparr>app_code = ''app'', app_map = ''app map'',
                        vendor_code = concat (case entry_vendor c of None \<Rightarrow> [] | Some v \<Rightarrow> v),
                        vendor_map = ''vendor map''\<rparr>),
      eslint = (\<lambda>f. [\<lparr>severity = 1, rule = ''semi''\<rparr>]),
      eslint_formatter = (\<lambda>rs. map (\<lambda>(f, ms). relative f) (filter (\<lambda>(f, ms). ms \<noteq> []) rs)),
      spawnMocha = (\<lambda>opts vs. Some (MochaError ''Mocha exited with code 1'')),
      supports_color = True\<rparr>"

definition sample_state :: state where
  "sample_state =
     \<lparr>fs = \<lparr>files = [(''/p/deps.json'', ''react''), (''/p/.env'', ''A=1''),
                      (''/p/app/main.html'', ''<html>''), (''/p/a.css'', ''css''),
                      (''/p/f.woff'', ''font'')],
             dirs = [''/p'', ''/p/app'', ''/p/build'']\<rparr>,
      console = [], servers = [], watchers = []\<rparr>"

definition empty_state :: state where
  "empty_state =
     \<lparr>fs = \<lparr>files = [], dirs = [''/p'']\<rparr>, console = [], servers = [], watchers = []\<rparr>"

text \<open>The module and the state that loading the gulpfile in the sample project gives.\<close>

definition sample_gulpfile :: gulpfile where
  "sample_gulpfile =
     \<lparr>compiler = webpack sample_process
        \<lparr>js = Some [''react''], css = Some [''/p/a.css''], fonts = Some [''/p/f.woff'']\<rparr>\<rparr>"

definition loaded_state :: state where
  "loaded_state = sample_state\<lparr>fs := mkdirp_sync ''/p/build/_assets/js'' (fs sample_state)\<rparr>"

text \<open>
  Variants of the sample: tools whose glob matcher finds one file \<^verbatim>\<open>main.js\<close> for whatever
  it is asked, with a linter that warns and with one that reports an error; tools whose
  webpack run fails; the loaded project after its manifest was edited; and the sample
  project after \<^verbatim>\<open>build\<close>.
\<close>

definition linted_externals :: externals where
  "linted_externals =
     sample_externals\<lparr>glob := (\<lambda>gs fsys. [\<lparr>relative = ''main.js'', contents = ''x = 1''\<rparr>])\<rparr>"

definition strict_externals :: externals where
  "strict_externals =
     linted_externals\<lparr>eslint := (\<lambda>f. [\<lparr>severity = 2, rule = ''no-undef''\<rparr>])\<rparr>"

definition broken_externals :: externals where
  "broken_externals =
     sample_externals\<lparr>webpack_compile := (\<lambda>c fsys. Inl (WebpackError ''Module not found''))\<rparr>"

definition edited_state :: state where
  "edited_state =
     loaded_state\<lparr>fs := (fs loaded_state)
       \<lparr>files := AList.update ''/p/deps.json'' ''redux'' (files (fs loaded_state))\<rparr>\<rparr>"

definition built_state :: state where
  "built_state =
     \<lparr>fs = \<lparr>files =
               [(''/p/deps.json'', ''react''), (''/p/.env'', ''A=1''),
                (''/p/app/main.html'', ''<html>''), (''/p/a.css'', ''css''),
                (''/p/f.woff'', ''font''),
                (''/p/build/index.html'', ''<html>''),
                (''/p/build/_assets/js/app.js'', ''app''),
                (''/p/build/_assets/js/app.js.map'', ''app map''),
                (''/p/build/_assets/js/vendor.js'', ''react''),
                (''/p/build/_assets/js/vendor.js.map'', ''vendor map''),
                (''/p/build/app-config.js'', ''window.APP_CONFIG = KEY: A=1;''),
                (''/p/build/_assets/css/vendor.css'', ''css''),
                (''/p/build/_assets/fonts/f.woff'', ''font'')],
             dirs =
               [''/p/build/_assets/fonts'', ''/p/build/_assets/css'', ''/p/build/_assets/js'',
                ''/p/build/_assets'', ''/p'', ''/p/app'', ''/p/build'']\<rparr>,
      console = [], servers = [], watchers = []\<rparr>"







section \<open>What a task writes\<close>

text \<open>
  A task changes a path when the file there after the task is not the file there before
  (it was created, or its contents differ).
\<close>

definition changed :: "(state \<Rightarrow> 'a \<times> state) \<Rightarrow> state \<Rightarrow> path \<Rightarrow> bool" where
  "changed t s f \<longleftrightarrow> map_of (files (fs (snd (t s)))) f \<noteq> map_of (files (fs s)) f"

section \<open>Facts about the host and the runner\<close>

lemmas sample_defs = sample_externals_def sample_process_def sample_state_def empty_state_def
  production_process_def sample_gulpfile_def loaded_state_def

lemmas path_defs = appDir_def buildDir_def testDir_def depsPath_def

lemma fold_console_log: "fold console_log ls s = s\<lparr>console := console s @ ls\<rparr>"
  by (induction ls arbitrary: s) (simp_all add: console_log_def)

lemma dirname_child: "CHR ''/'' \<notin> set name \<Longrightarrow> dirname (d @ ''/'' @ name) = d"
proof -
  assume a: "CHR ''/'' \<notin> set name"
  have "dropWhile (\<lambda>c. c \<noteq> CHR ''/'') (rev name @ CHR ''/'' # rev d) = CHR ''/'' # rev d"
    using a by (auto simp: dropWhile_append3)
  then show ?thesis by (simp add: dirname_def)
qed

lemma dirname_app_config: "dirname (buildDir p @ ''/app-config.js'') = buildDir p"
  using dirname_child [of "''app-config.js''" "buildDir p"] by simp

lemma leaf_failures:
  "(n, e) \<in> set (fst (leaf name f s)) \<Longrightarrow> n = name \<and> fst (f s) = Some e"
  by (auto simp: leaf_def split: prod.splits option.splits)

lemma run_parallel_failures:
  "(n, e) \<in> set (fst (run_parallel ts s)) \<Longrightarrow> \<exists>t \<in> set ts. \<exists>s'. (n, e) \<in> set (fst (t s'))"
proof (induction ts arbitrary: s)
  case Nil
  then show ?case by simp
next
  case (Cons t ts)
  obtain fl s' where t: "t s = (fl, s')" by (cases "t s")
  obtain fl' s'' where r: "run_parallel ts s' = (fl', s'')" by (cases "run_parallel ts s'")
  from Cons.prems t r have "(n, e) \<in> set fl \<or> (n, e) \<in> set fl'" by simp
  then show ?case
  proof
    assume "(n, e) \<in> set fl"
    with t have "(n, e) \<in> set (fst (t s))" by simp
    then show ?thesis by auto
  next
    assume "(n, e) \<in> set fl'"
    with r have "(n, e) \<in> set (fst (run_parallel ts s'))" by simp
    from Cons.IH [OF this] show ?thesis by auto
  qed
qed

lemma build_tasks:
  "build x p m =
     run_parallel
       [leaf ''buildMainHtml'' (buildMainHtml x p),
        leaf ''buildAllScripts'' (buildAllScripts x m),
        leaf ''buildAppAssets'' (buildAppAssets x p),
        leaf ''buildDevAppConfig'' (buildDevAppConfig x p),
        leaf ''buildVendorStyles'' (buildVendorStyles x p),
        leaf ''buildVendorFonts'' (buildVendorFonts x p)]"
  by (simp add: build_def proGulp_parallel_def proGulp_task_def builders_def)

lemma sample_loads:
  "load_gulpfile sample_externals sample_process sample_state = Inr (sample_gulpfile, loaded_state)"
  by (simp add: load_gulpfile_def sample_defs path_defs readFileSync_def)

lemma empty_does_not_load:
  "load_gulpfile sample_externals sample_process empty_state = Inl (ENOENT ''/p/deps.json'')"
  by (simp add: load_gulpfile_def sample_defs path_defs readFileSync_def)

section \<open>The config-generation task\<close>

lemma buildDevAppConfig_completes: "fst (buildDevAppConfig x p s) = None"
  by (simp add: buildDevAppConfig_def split: sum.splits)

lemma build_never_blames_config:
  "(''buildDevAppConfig'', e) \<notin> set (fst (build x p m s))"
proof
  assume "(''buildDevAppConfig'', e) \<in> set (fst (build x p m s))"
  then obtain t s' where t: "t \<in> set [leaf ''buildMainHtml'' (buildMainHtml x p),
        leaf ''buildAllScripts'' (buildAllScripts x m),
        leaf ''buildAppAssets'' (buildAppAssets x p),
        leaf ''buildDevAppConfig'' (buildDevAppConfig x p),
        leaf ''buildVendorStyles'' (buildVendorStyles x p),
        leaf ''buildVendorFonts'' (buildVendorFonts x p)]"
    and f: "(''buildDevAppConfig'', e) \<in> set (fst (t s'))"
    unfolding build_tasks by (blast dest: run_parallel_failures)
  from t f show False
    using buildDevAppConfig_completes [of x p s']
    by (auto dest!: leaf_failures)
qed

lemma writeAppConfig_ok:
  "readFileSync (cwd p @ ''/.env'') (fs s) = Inr envfile \<Longrightarrow>
   dotenv_parse x envfile = Inr config \<Longrightarrow>
   buildDir p \<in> set (dirs (fs s)) \<Longrightarrow>
   writeAppConfig x p s =
     Inr (s\<lparr>fs := (fs s)\<lparr>files :=
              AList.update (buildDir p @ ''/app-config.js'')
                (''window.APP_CONFIG = '' @ JSON_stringify x config 4 @ '';'') (files (fs s))\<rparr>\<rparr>)"
  by (simp add: writeAppConfig_def writeFileSync_def dirname_app_config Let_def)

lemma empty_has_no_env:
  "writeAppConfig sample_externals sample_process empty_state = Inl (ENOENT ''/p/.env'')"
  by (simp add: writeAppConfig_def sample_defs readFileSync_def)

lemma sample_is_development: "NODE_ENV sample_process = ''development''"
  by (simp add: NODE_ENV_def sample_defs)

text \<open>
  C5: whatever the environment file holds, and whether it can be read or not,
  \<^verbatim>\<open>buildDevAppConfig\<close> completes. When reading, parsing or writing fails in development
  mode, the task prints \<^verbatim>\<open>Error building app config\<close> and the message of the error and
  leaves the rest of the state alone. No failure of \<^verbatim>\<open>build\<close> ever carries its name.
\<close>

theorem buildDevAppConfig_catches:
  "fst (buildDevAppConfig x p s) = None \<and>
   (NODE_ENV p = ''development'' \<and> writeAppConfig x p s = Inl e \<longrightarrow>
      snd (buildDevAppConfig x p s) =
        s\<lparr>console := console s @ [''Error building app config'', message e]\<rparr>) \<and>
   (\<forall>e'. (''buildDevAppConfig'', e') \<notin> set (fst (build x p m s)))"
  using build_never_blames_config [of _ x p m s]
  by (simp add: buildDevAppConfig_def console_log_def split: sum.splits)

theorem buildDevAppConfig_catches_witness:
  "NODE_ENV sample_process = ''development'' \<and>
   writeAppConfig sample_externals sample_process empty_state = Inl (ENOENT ''/p/.env'') \<and>
   fst (buildDevAppConfig sample_externals sample_process empty_state) = None \<and>
   console (snd (buildDevAppConfig sample_externals sample_process empty_state)) =
     [''Error building app config'', ''ENOENT: no such file or directory, open /p/.env'']"
  using buildDevAppConfig_catches
          [of sample_externals sample_process empty_state "ENOENT ''/p/.env''" sample_gulpfile]
        sample_is_development empty_has_no_env
  by (simp add: empty_state_def)

text \<open>
  C6 as stated fails: in development mode with no environment file the task writes no
  \<^verbatim>\<open>app-config.js\<close>.
\<close>

theorem development_without_artifact_counterexample:
  "NODE_ENV sample_process = ''development'' \<and>
   readFileSync ''/p/build/app-config.js''
     (fs (snd (buildDevAppConfig sample_externals sample_process empty_state))) =
     Inl (ENOENT ''/p/build/app-config.js'')"
  by (simp add: buildDevAppConfig_def sample_is_development empty_has_no_env console_log_def
        readFileSync_def)
     (simp add: empty_state_def)

text \<open>
  C6, amended: an absent \<^verbatim>\<open>NODE_ENV\<close> reads as \<^verbatim>\<open>development\<close>; in any other mode the task
  returns with the state untouched; in development mode it writes \<^verbatim>\<open>app-config.js\<close> into
  the build directory when the environment file is read and parsed and the build
  directory exists, and it leaves the file system as it was when one of these fails.
\<close>

theorem buildDevAppConfig_mode:
  "(map_of (env p) ''NODE_ENV'' = None \<longrightarrow> NODE_ENV p = ''development'') \<and>
   (NODE_ENV p \<noteq> ''development'' \<longrightarrow> buildDevAppConfig x p s = (None, s)) \<and>
   (NODE_ENV p = ''development'' \<and>
    readFileSync (cwd p @ ''/.env'') (fs s) = Inr envfile \<and>
    dotenv_parse x envfile = Inr config \<and>
    buildDir p \<in> set (dirs (fs s)) \<longrightarrow>
      readFileSync (buildDir p @ ''/app-config.js'') (fs (snd (buildDevAppConfig x p s))) =
        Inr (''window.APP_CONFIG = '' @ JSON_stringify x config 4 @ '';'')) \<and>
   (NODE_ENV p = ''development'' \<and> writeAppConfig x p s = Inl e \<longrightarrow>
      fs (snd (buildDevAppConfig x p s)) = fs s)"
proof (intro conjI impI)
  assume "map_of (env p) ''NODE_ENV'' = None"
  then show "NODE_ENV p = ''development''" by (simp add: NODE_ENV_def)
next
  assume "NODE_ENV p \<noteq> ''development''"
  then show "buildDevAppConfig x p s = (None, s)" by (simp add: buildDevAppConfig_def)
next
  assume a: "NODE_ENV p = ''development'' \<and>
    readFileSync (cwd p @ ''/.env'') (fs s) = Inr envfile \<and>
    dotenv_parse x envfile = Inr config \<and>
    buildDir p \<in> set (dirs (fs s))"
  then show "readFileSync (buildDir p @ ''/app-config.js'') (fs (snd (buildDevAppConfig x p s))) =
        Inr (''window.APP_CONFIG = '' @ JSON_stringify x config 4 @ '';'')"
    using writeAppConfig_ok [of p s envfile x config]
    by (simp add: buildDevAppConfig_def readFileSync_def update_conv')
next
  assume "NODE_ENV p = ''development'' \<and> writeAppConfig x p s = Inl e"
  then show "fs (snd (buildDevAppConfig x p s)) = fs s"
    by (simp add: buildDevAppConfig_def console_log_def)
qed

theorem buildDevAppConfig_mode_witness:
  "map_of (env sample_process) ''NODE_ENV'' = None \<and>
   NODE_ENV sample_process = ''development'' \<and>
   NODE_ENV production_process \<noteq> ''development'' \<and>
   buildDevAppConfig sample_externals production_process sample_state = (None, sample_state) \<and>
   readFileSync (cwd sample_process @ ''/.env'') (fs sample_state) = Inr ''A=1'' \<and>
   dotenv_parse sample_externals ''A=1'' = Inr [(''KEY'', ''A=1'')] \<and>
   buildDir sample_process \<in> set (dirs (fs sample_state)) \<and>
   readFileSync ''/p/build/app-config.js''
     (fs (snd (buildDevAppConfig sample_externals sample_process sample_state))) =
     Inr ''window.APP_CONFIG = KEY: A=1;'' \<and>
   writeAppConfig sample_externals sample_process empty_state = Inl (ENOENT ''/p/.env'') \<and>
   fs (snd (buildDevAppConfig sample_externals sample_process empty_state)) = fs empty_state"
proof -
  have absent: "map_of (env sample_process) ''NODE_ENV'' = None"
    by (simp add: sample_defs)
  have prod: "NODE_ENV production_process \<noteq> ''development''"
    by (simp add: NODE_ENV_def sample_defs)
  have env: "readFileSync (cwd sample_process @ ''/.env'') (fs sample_state) = Inr ''A=1''"
    by (simp add: readFileSync_def sample_defs)
  have parse: "dotenv_parse sample_externals ''A=1'' = Inr [(''KEY'', ''A=1'')]"
    by (simp add: sample_defs)
  have dir: "buildDir sample_process \<in> set (dirs (fs sample_state))"
    by (simp add: buildDir_def sample_defs)
  have str: "JSON_stringify sample_externals [(''KEY'', ''A=1'')] 4 = ''KEY: A=1''"
    by (simp add: sample_defs)
  have bd: "buildDir sample_process = ''/p/build''"
    by (simp add: buildDir_def sample_defs)
  note t1 = buildDevAppConfig_mode
              [of sample_process sample_externals sample_state "''A=1''" "[(''KEY'', ''A=1'')]"]
  note t2 = buildDevAppConfig_mode [of production_process sample_externals sample_state]
  note t3 = buildDevAppConfig_mode
              [of sample_process sample_externals empty_state _ _ "ENOENT ''/p/.env''"]
  from t1 absent env parse dir str bd
  have a: "NODE_ENV sample_process = ''development''" and
       b: "readFileSync ''/p/build/app-config.js''
             (fs (snd (buildDevAppConfig sample_externals sample_process sample_state))) =
             Inr ''window.APP_CONFIG = KEY: A=1;''"
    by simp_all
  from t2 prod
  have c: "buildDevAppConfig sample_externals production_process sample_state = (None, sample_state)"
    by simp
  from t3 a empty_has_no_env
  have d: "fs (snd (buildDevAppConfig sample_externals sample_process empty_state)) = fs empty_state"
    by simp
  from absent a prod c env parse dir b empty_has_no_env d show ?thesis by simp
qed

section \<open>The dev server\<close>

text \<open>
  C4 as stated fails: the port is the literal 8080 in the options; no process, whatever its
  environment, and no state makes \<^verbatim>\<open>setupDevServer\<close> start a server on another port.
\<close>

theorem port_not_configurable_counterexample:
  "\<not> (\<exists>p s. \<exists>opts \<in> set (servers (snd (setupDevServer p s))).
         opts \<notin> set (servers s) \<and> port opts \<noteq> 8080)"
  by (auto simp: setupDevServer_def server_options_def)

text \<open>
  C4, amended: \<^verbatim>\<open>setupDevServer\<close> starts one server, on port 8080, that serves the build
  directory with the history-API fallback as its middleware, watches every file below the
  build directory, and has \<^verbatim>\<open>ghostMode\<close>, \<^verbatim>\<open>injectChanges\<close>, \<^verbatim>\<open>notify\<close> and \<^verbatim>\<open>open\<close> switched off.
\<close>

theorem setupDevServer_options:
  "\<exists>opts. setupDevServer p s = (None, s\<lparr>servers := servers s @ [opts]\<rparr>) \<and>
     baseDir opts = buildDir p \<and>
     port opts = 8080 \<and>
     middleware opts = [''connect-history-api-fallback''] \<and>
     watched_files opts = buildDir p @ ''/**/*'' \<and>
     \<not> ghostMode opts \<and> \<not> injectChanges opts \<and> \<not> notify opts \<and> \<not> open_browser opts \<and>
     reloadDebounce opts = 1000"
  by (rule exI [of _ "server_options p"]) (simp add: setupDevServer_def server_options_def)

section \<open>The test task\<close>

lemma test_swallows: "test x p s = (None, s)"
  by (simp add: test_def stream_result_def split: event.splits)

lemma gulp_test: "map_of (gulp_tasks x p m) ''test'' = Some (leaf ''test'' (test x p))"
  by (simp add: gulp_tasks_def proGulp_task_def registry_def builders_def)

lemma sd_builder_test:
  "load_gulpfile x p s = Inr (m, s1) \<Longrightarrow> sd_builder x p (Some ''test'') s = (0, s1)"
  by (simp add: sd_builder_def gulp_test leaf_def test_swallows report_def)

lemma sample_mocha_fails:
  "spawnMocha sample_externals opts vs = Some (MochaError ''Mocha exited with code 1'')"
  by (simp add: sample_defs)

text \<open>
  C1 as stated fails: in the sample project the test run fails, and \<^verbatim>\<open>sd-builder test\<close>
  exits with status 0 and prints nothing.
\<close>

theorem failing_test_exits_zero_counterexample:
  "mocha_event sample_externals sample_process (fs loaded_state) =
     Stream_error (MochaError ''Mocha exited with code 1'') \<and>
   fst (sd_builder sample_externals sample_process (Some ''test'') sample_state) = 0 \<and>
   console (snd (sd_builder sample_externals sample_process (Some ''test'') sample_state)) = []"
  by (simp add: mocha_event_def sample_mocha_fails sd_builder_test [OF sample_loads])
     (simp add: sample_defs)

text \<open>
  C1, amended: when the test runner reports a failure, the stream emits \<^verbatim>\<open>"error"\<close>, the
  listener of the task swallows it and ends the stream, the task completes with the state
  as it was, and \<^verbatim>\<open>sd-builder test\<close> exits with status 0 without printing a task name or a
  message.
\<close>

theorem test_failure_swallowed:
  "load_gulpfile x p s0 = Inr (m, s) \<Longrightarrow>
   spawnMocha x (test_options p)
      (glob x [testDir p @ ''/**/*.js'', testDir p @ ''/**/*.jsx''] (fs s)) = Some e \<Longrightarrow>
   mocha_event x p (fs s) = Stream_error e \<and>
   stream_result [Swallow_errors] (Stream_error e) = None \<and>
   test x p s = (None, s) \<and>
   sd_builder x p (Some ''test'') s0 = (0, s)"
  by (simp add: mocha_event_def test_swallows sd_builder_test stream_result_def)

theorem test_failure_swallowed_witness:
  "load_gulpfile sample_externals sample_process sample_state = Inr (sample_gulpfile, loaded_state) \<and>
   spawnMocha sample_externals (test_options sample_process)
      (glob sample_externals
         [testDir sample_process @ ''/**/*.js'', testDir sample_process @ ''/**/*.jsx'']
         (fs loaded_state)) = Some (MochaError ''Mocha exited with code 1'') \<and>
   test sample_externals sample_process loaded_state = (None, loaded_state) \<and>
   sd_builder sample_externals sample_process (Some ''test'') sample_state = (0, loaded_state)"
  using test_failure_swallowed [OF sample_loads sample_mocha_fails] sample_loads sample_mocha_fails
  by simp

lemmas fs_defs = readFileSync_def writeFileSync_def write_out_def mkdirp_sync_def dirname_def
  dest_path_def gulp_dest_def List.union_def List.insert_def

lemmas eval_defs = sample_defs path_defs fs_defs basename_def rename_def

lemma run_parallel_ok:
  "t s = ([], s') \<Longrightarrow> run_parallel ts s' = ([], s'') \<Longrightarrow> run_parallel (t # ts) s = ([], s'')"
  by simp

lemma leaf_ok: "a s = (None, s') \<Longrightarrow> leaf n a s = ([], s')"
  by (simp add: leaf_def)

lemma sample_build:
  "build sample_externals sample_process sample_gulpfile loaded_state = ([], built_state)"
  unfolding build_tasks
  apply (rule run_parallel_ok, rule leaf_ok)
   apply (simp add: buildMainHtml_def sample_defs path_defs fs_defs rename_def basename_def)
  apply (rule run_parallel_ok, rule leaf_ok)
   apply (simp add: buildAllScripts_def compiler_run_def emitted_def webpack_def
      sample_defs path_defs fs_defs)
  apply (rule run_parallel_ok, rule leaf_ok)
   apply (simp add: buildAppAssets_def sample_defs path_defs fs_defs basename_def)
  apply (rule run_parallel_ok, rule leaf_ok)
   apply (simp add: buildDevAppConfig_def writeAppConfig_def NODE_ENV_def
      sample_defs path_defs fs_defs)
  apply (rule run_parallel_ok, rule leaf_ok)
   apply (simp add: buildVendorStyles_def read_deps_def gulp_src_def concat_files_def
      sample_defs path_defs fs_defs basename_def)
  apply (rule run_parallel_ok, rule leaf_ok)
   apply (simp add: buildVendorFonts_def read_deps_def gulp_src_def
      sample_defs path_defs fs_defs basename_def)
  apply (simp add: built_state_def)
  done

lemma sample_compiler:
  "compiler sample_gulpfile =
     webpack sample_process
       \<lparr>js = Some [''react''], css = Some [''/p/a.css''], fonts = Some [''/p/f.woff'']\<rparr>"
  by (simp add: sample_gulpfile_def)

lemma sample_compiles:
  "webpack_compile sample_externals (compiler sample_gulpfile) (fs loaded_state) =
     Inr \<lparr>app_code = ''app'', app_map = ''app map'', vendor_code = ''react'',
          vendor_map = ''vendor map''\<rparr>"
  by (simp add: sample_gulpfile_def sample_externals_def webpack_def)

section \<open>The artifacts of a build\<close>

lemma files_write_out:
  "map_of (files (write_out f c fsys)) = (map_of (files fsys))(f \<mapsto> c)"
  by (simp add: write_out_def mkdirp_sync_def update_conv')

lemma fold_write_out_changes:
  "map_of (files (fold (\<lambda>(f, c). write_out f c) ws fsys)) f \<noteq> map_of (files fsys) f \<Longrightarrow>
   f \<in> fst ` set ws"
proof (induction ws arbitrary: fsys)
  case Nil
  then show ?case by simp
next
  case (Cons w ws)
  obtain g c where w: "w = (g, c)" by (cases w)
  show ?case
  proof (cases "f = g")
    case True
    with w show ?thesis by simp
  next
    case False
    with Cons.prems w
    have "map_of (files (fold (\<lambda>(f, c). write_out f c) ws (write_out g c fsys))) f
            \<noteq> map_of (files (write_out g c fsys)) f"
      by (simp add: files_write_out)
    from Cons.IH [OF this] show ?thesis by simp
  qed
qed

lemma gulp_dest_fold:
  "gulp_dest d vs fsys =
     fold (\<lambda>(f, c). write_out f c) (map (\<lambda>v. (dest_path d (relative v), contents v)) vs) fsys"
  by (simp add: gulp_dest_def fold_map o_def)

lemma gulp_dest_changes:
  "map_of (files (gulp_dest d vs fsys)) f \<noteq> map_of (files fsys) f \<Longrightarrow>
   \<exists>v \<in> set vs. f = dest_path d (relative v)"
  unfolding gulp_dest_fold by (drule fold_write_out_changes) auto

lemma dest_path_slash: "dest_path (d @ ''/'') rel = d @ ''/'' @ rel"
  by (simp add: dest_path_def)

lemma buildMainHtml_writes:
  "changed (buildMainHtml x p) s f \<Longrightarrow> f = buildDir p @ ''/index.html''"
proof -
  assume "changed (buildMainHtml x p) s f"
  then have "map_of (files (gulp_dest (buildDir p @ ''/'')
               (map (rename ''index.html'') (glob x [appDir p @ ''/main.html''] (fs s)))
               (fs s))) f \<noteq> map_of (files (fs s)) f"
    by (simp add: changed_def buildMainHtml_def)
  from gulp_dest_changes [OF this] show ?thesis
    by (auto simp: rename_def dest_path_slash)
qed

lemma buildAppAssets_writes:
  "changed (buildAppAssets x p) s f \<Longrightarrow>
   \<exists>v \<in> set (glob x [appDir p @ ''/assets/**/*''] (fs s)). f = buildDir p @ ''/_assets/'' @ relative v"
proof -
  assume "changed (buildAppAssets x p) s f"
  then have "map_of (files (gulp_dest (buildDir p @ ''/_assets/'')
               (glob x [appDir p @ ''/assets/**/*''] (fs s)) (fs s))) f \<noteq> map_of (files (fs s)) f"
    by (simp add: changed_def buildAppAssets_def)
  from gulp_dest_changes [OF this] show ?thesis
    using dest_path_slash [of "buildDir p @ ''/_assets''"] by auto
qed

lemma compiler_run_writes:
  "changed (compiler_run x c) s f \<Longrightarrow>
   \<exists>out. webpack_compile x c (fs s) = Inr out \<and> f \<in> fst ` set (emitted c out)"
proof (cases "webpack_compile x c (fs s)")
  case (Inl e)
  assume "changed (compiler_run x c) s f"
  with Inl show ?thesis by (simp add: changed_def compiler_run_def)
next
  case (Inr out)
  assume "changed (compiler_run x c) s f"
  with Inr have "map_of (files (fold (\<lambda>(f, c). write_out f c) (emitted c out) (fs s))) f
                   \<noteq> map_of (files (fs s)) f"
    by (simp add: changed_def compiler_run_def)
  from fold_write_out_changes [OF this] Inr show ?thesis by blast
qed

lemma buildAllScripts_writes:
  "compiler m = webpack p d \<Longrightarrow> changed (buildAllScripts x m) s f \<Longrightarrow>
   f \<in> set [buildDir p @ ''/_assets/js/app.js'', buildDir p @ ''/_assets/js/app.js.map'',
             buildDir p @ ''/_assets/js/vendor.js'', buildDir p @ ''/_assets/js/vendor.js.map'']"
proof -
  assume m: "compiler m = webpack p d" and "changed (buildAllScripts x m) s f"
  then have "changed (compiler_run x (webpack p d)) s f"
    by (simp add: changed_def buildAllScripts_def)
  from compiler_run_writes [OF this] obtain out where "f \<in> fst ` set (emitted (webpack p d) out)"
    by blast
  then show ?thesis by (auto simp: emitted_def webpack_def)
qed

lemma buildDevAppConfig_writes:
  "changed (buildDevAppConfig x p) s f \<Longrightarrow> f = buildDir p @ ''/app-config.js''"
  by (auto simp: changed_def buildDevAppConfig_def writeAppConfig_def writeFileSync_def
           console_log_def update_conv' Let_def split: sum.splits if_splits)

lemma buildVendorStyles_writes:
  "changed (buildVendorStyles x p) s f \<Longrightarrow> f = buildDir p @ ''/_assets/css/vendor.css''"
proof -
  assume c: "changed (buildVendorStyles x p) s f"
  then obtain d vs where "read_deps x p (fs s) = Inr d" "gulp_src x (css d) (fs s) = Inr vs"
    by (auto simp: changed_def buildVendorStyles_def split: sum.splits)
  with c have "map_of (files (gulp_dest (buildDir p @ ''/_assets/css/'')
                 (concat_files ''vendor.css'' vs) (fs s))) f \<noteq> map_of (files (fs s)) f"
    by (simp add: changed_def buildVendorStyles_def)
  from gulp_dest_changes [OF this] show ?thesis
    using dest_path_slash [of "buildDir p @ ''/_assets/css''"]
    by (auto simp: concat_files_def split: if_splits)
qed

lemma buildVendorFonts_writes:
  "changed (buildVendorFonts x p) s f \<Longrightarrow> prefix (buildDir p @ ''/_assets/fonts/'') f"
proof -
  assume c: "changed (buildVendorFonts x p) s f"
  then obtain d vs where "read_deps x p (fs s) = Inr d" "gulp_src x (fonts d) (fs s) = Inr vs"
    by (auto simp: changed_def buildVendorFonts_def split: sum.splits)
  with c have "map_of (files (gulp_dest (buildDir p @ ''/_assets/fonts/'') vs (fs s))) f
                 \<noteq> map_of (files (fs s)) f"
    by (simp add: changed_def buildVendorFonts_def)
  from gulp_dest_changes [OF this] show ?thesis
    using dest_path_slash [of "buildDir p @ ''/_assets/fonts''"] by auto
qed

lemma changed_leaf: "changed (leaf n a) s f = changed a s f"
  by (simp add: changed_def leaf_def split: prod.splits option.splits)

lemma run_parallel_changes:
  "changed (run_parallel ts) s f \<Longrightarrow> \<exists>t \<in> set ts. \<exists>s'. changed t s' f"
proof (induction ts arbitrary: s)
  case Nil
  then show ?case by (simp add: changed_def)
next
  case (Cons t ts)
  obtain fl s' where t: "t s = (fl, s')" by (cases "t s")
  obtain fl' s'' where r: "run_parallel ts s' = (fl', s'')" by (cases "run_parallel ts s'")
  from Cons.prems t r
  have "map_of (files (fs s'')) f \<noteq> map_of (files (fs s)) f" by (simp add: changed_def)
  then have "map_of (files (fs s')) f \<noteq> map_of (files (fs s)) f \<or>
             map_of (files (fs s'')) f \<noteq> map_of (files (fs s')) f" by auto
  then show ?case
  proof
    assume "map_of (files (fs s')) f \<noteq> map_of (files (fs s)) f"
    with t have "changed t s f" by (simp add: changed_def)
    then show ?thesis by auto
  next
    assume "map_of (files (fs s'')) f \<noteq> map_of (files (fs s')) f"
    with r have "changed (run_parallel ts) s' f" by (simp add: changed_def)
    from Cons.IH [OF this] show ?thesis by auto
  qed
qed

lemma builder_writes:
  "compiler m = webpack p d \<Longrightarrow>
   t \<in> set [leaf ''buildMainHtml'' (buildMainHtml x p),
             leaf ''buildAllScripts'' (buildAllScripts x m),
             leaf ''buildAppAssets'' (buildAppAssets x p),
             leaf ''buildDevAppConfig'' (buildDevAppConfig x p),
             leaf ''buildVendorStyles'' (buildVendorStyles x p),
             leaf ''buildVendorFonts'' (buildVendorFonts x p)] \<Longrightarrow>
   changed t s' f \<Longrightarrow>
   f = buildDir p @ ''/index.html'' \<or> f = buildDir p @ ''/app-config.js'' \<or>
   prefix (buildDir p @ ''/_assets/'') f"
proof -
  assume m: "compiler m = webpack p d"
    and t: "t \<in> set [leaf ''buildMainHtml'' (buildMainHtml x p),
        leaf ''buildAllScripts'' (buildAllScripts x m),
        leaf ''buildAppAssets'' (buildAppAssets x p),
        leaf ''buildDevAppConfig'' (buildDevAppConfig x p),
        leaf ''buildVendorStyles'' (buildVendorStyles x p),
        leaf ''buildVendorFonts'' (buildVendorFonts x p)]"
    and c: "changed t s' f"
  from t have "t = leaf ''buildMainHtml'' (buildMainHtml x p) \<or>
        t = leaf ''buildAllScripts'' (buildAllScripts x m) \<or>
        t = leaf ''buildAppAssets'' (buildAppAssets x p) \<or>
        t = leaf ''buildDevAppConfig'' (buildDevAppConfig x p) \<or>
        t = leaf ''buildVendorStyles'' (buildVendorStyles x p) \<or>
        t = leaf ''buildVendorFonts'' (buildVendorFonts x p)" by simp
  then show ?thesis
  proof (elim disjE)
    assume "t = leaf ''buildMainHtml'' (buildMainHtml x p)"
    with c have "changed (buildMainHtml x p) s' f" by (simp add: changed_leaf)
    from buildMainHtml_writes [OF this] show ?thesis by simp
  next
    assume "t = leaf ''buildAllScripts'' (buildAllScripts x m)"
    with c have "changed (buildAllScripts x m) s' f" by (simp add: changed_leaf)
    from buildAllScripts_writes [OF m this]
    have "f = buildDir p @ ''/_assets/js/app.js'' \<or> f = buildDir p @ ''/_assets/js/app.js.map'' \<or>
          f = buildDir p @ ''/_assets/js/vendor.js'' \<or> f = buildDir p @ ''/_assets/js/vendor.js.map''"
      by simp
    then show ?thesis by (elim disjE) simp_all
  next
    assume "t = leaf ''buildAppAssets'' (buildAppAssets x p)"
    with c have "changed (buildAppAssets x p) s' f" by (simp add: changed_leaf)
    from buildAppAssets_writes [OF this]
    obtain v where "v \<in> set (glob x [appDir p @ ''/assets/**/*''] (fs s'))"
      and v: "f = buildDir p @ ''/_assets/'' @ relative v" by (rule bexE)
    show ?thesis unfolding v by simp
  next
    assume "t = leaf ''buildDevAppConfig'' (buildDevAppConfig x p)"
    with c have "changed (buildDevAppConfig x p) s' f" by (simp add: changed_leaf)
    from buildDevAppConfig_writes [OF this] show ?thesis by simp
  next
    assume "t = leaf ''buildVendorStyles'' (buildVendorStyles x p)"
    with c have "changed (buildVendorStyles x p) s' f" by (simp add: changed_leaf)
    from buildVendorStyles_writes [OF this] show ?thesis by simp
  next
    assume "t = leaf ''buildVendorFonts'' (buildVendorFonts x p)"
    with c have "changed (buildVendorFonts x p) s' f" by (simp add: changed_leaf)
    from buildVendorFonts_writes [OF this] have "prefix (buildDir p @ ''/_assets/fonts/'') f" .
    then have "prefix (buildDir p @ ''/_assets/'') f"
      using append_prefixD [of "buildDir p @ ''/_assets/''" "''fonts/''" f] by simp
    then show ?thesis by simp
  qed
qed


lemma under_build:
  "f = buildDir p @ ''/index.html'' \<or> f = buildDir p @ ''/app-config.js'' \<or>
   prefix (buildDir p @ ''/_assets/'') f \<Longrightarrow> prefix (buildDir p @ ''/'') f"
proof (elim disjE)
  assume "f = buildDir p @ ''/index.html''"
  then show ?thesis by simp
next
  assume "f = buildDir p @ ''/app-config.js''"
  then show ?thesis by simp
next
  assume "prefix (buildDir p @ ''/_assets/'') f"
  then show ?thesis
    using append_prefixD [of "buildDir p @ ''/''" "''_assets/''" f] by simp
qed

lemma emitted_webpack:
  "emitted (webpack p d) out =
     [(buildDir p @ ''/_assets/js/app.js'', app_code out),
      (buildDir p @ ''/_assets/js/app.js.map'', app_map out),
      (buildDir p @ ''/_assets/js/vendor.js'', vendor_code out),
      (buildDir p @ ''/_assets/js/vendor.js.map'', vendor_map out)]"
  by (simp add: emitted_def webpack_def)

lemma compiler_run_fs:
  "webpack_compile x (webpack p d) (fs s) = Inr out \<Longrightarrow>
   fs (snd (compiler_run x (webpack p d) s)) =
     write_out (buildDir p @ ''/_assets/js/vendor.js.map'') (vendor_map out)
       (write_out (buildDir p @ ''/_assets/js/vendor.js'') (vendor_code out)
         (write_out (buildDir p @ ''/_assets/js/app.js.map'') (app_map out)
           (write_out (buildDir p @ ''/_assets/js/app.js'') (app_code out) (fs s))))"
  by (simp add: compiler_run_def emitted_webpack)



lemma sample_writes_index: "changed (buildMainHtml sample_externals sample_process) loaded_state ''/p/build/index.html''"
  by (simp add: changed_def buildMainHtml_def eval_defs)

















































section \<open>The linter\<close>

lemma gulp_lint: "map_of (gulp_tasks x p m) ''lint'' = Some (leaf ''lint'' (lint x p))"
  by (simp add: gulp_tasks_def)

lemma errorCount_pos:
  "f \<in> set vs \<Longrightarrow> msg \<in> set (eslint x f) \<Longrightarrow> severity msg = 2 \<Longrightarrow>
   errorCount (map (\<lambda>f. (f, eslint x f)) vs) \<noteq> 0"
  by (auto simp: errorCount_def filter_empty_conv o_def)

lemma errorCount_zero:
  "(\<forall>f \<in> set vs. \<forall>msg \<in> set (eslint x f). severity msg \<noteq> 2) \<Longrightarrow>
   errorCount (map (\<lambda>f. (f, eslint x f)) vs) = 0"
  by (auto simp: errorCount_def filter_empty_conv o_def)

lemma lint_result:
  "lint x p s =
     (failAfterError (map (\<lambda>f. (f, eslint x f)) (glob x (lint_srcs p) (fs s))),
      s\<lparr>console := console s @
           eslint_formatter x (map (\<lambda>f. (f, eslint x f)) (glob x (lint_srcs p) (fs s)))\<rparr>)"
  by (simp add: lint_def Let_def)

lemma sd_builder_lint:
  "load_gulpfile x p s0 = Inr (m, s) \<Longrightarrow>
   sd_builder x p (Some ''lint'') s0 =
     (case fst (lint x p s) of
        None \<Rightarrow> (0, snd (lint x p s))
      | Some e \<Rightarrow> (1, (snd (lint x p s))\<lparr>console := console (snd (lint x p s)) @ [''lint: '' @ message e]\<rparr>))"
  by (simp add: sd_builder_def gulp_lint leaf_def report_def split: prod.splits option.splits)

lemma linted_loads:
  "load_gulpfile linted_externals sample_process sample_state = Inr (sample_gulpfile, loaded_state)"
  by (simp add: load_gulpfile_def linted_externals_def sample_defs path_defs readFileSync_def)

lemma strict_loads:
  "load_gulpfile strict_externals sample_process sample_state = Inr (sample_gulpfile, loaded_state)"
  by (simp add: load_gulpfile_def strict_externals_def linted_externals_def sample_defs path_defs readFileSync_def)

text \<open>
  C8 as stated fails: a file whose only violation is a warning passes, and
  \<^verbatim>\<open>sd-builder lint\<close> exits with status 0.
\<close>

theorem warning_passes_lint_counterexample:
  "glob linted_externals (lint_srcs sample_process) (fs loaded_state) =
     [\<lparr>relative = ''main.js'', contents = ''x = 1''\<rparr>] \<and>
   eslint linted_externals \<lparr>relative = ''main.js'', contents = ''x = 1''\<rparr> =
     [\<lparr>severity = 1, rule = ''semi''\<rparr>] \<and>
   fst (sd_builder linted_externals sample_process (Some ''lint'') sample_state) = 0"
  by (simp add: sd_builder_lint [OF linted_loads] lint_result failAfterError_def errorCount_def)
     (simp add: linted_externals_def sample_externals_def)

text \<open>
  C8, amended: when ESLint reports a violation of error severity in a file the lint globs
  match, the task prints the report of the formatter and then fails with the number of
  errors, and \<^verbatim>\<open>sd-builder lint\<close> exits with status 1, the report printed before the failure.
  When every violation is a warning the report is printed and the run exits with status 0.
\<close>

theorem lint_fails_on_error:
  "load_gulpfile x p s0 = Inr (m, s) \<Longrightarrow>
   results = map (\<lambda>f. (f, eslint x f)) (glob x (lint_srcs p) (fs s)) \<Longrightarrow>
   ((\<exists>f \<in> set (glob x (lint_srcs p) (fs s)). \<exists>msg \<in> set (eslint x f). severity msg = 2) \<longrightarrow>
      errorCount results \<noteq> 0 \<and>
      lint x p s = (Some (ESLintError (errorCount results)),
                    s\<lparr>console := console s @ eslint_formatter x results\<rparr>) \<and>
      sd_builder x p (Some ''lint'') s0 =
        (1, s\<lparr>console := console s @ eslint_formatter x results @
                  [''lint: '' @ message (ESLintError (errorCount results))]\<rparr>)) \<and>
   ((\<forall>f \<in> set (glob x (lint_srcs p) (fs s)). \<forall>msg \<in> set (eslint x f). severity msg \<noteq> 2) \<longrightarrow>
      lint x p s = (None, s\<lparr>console := console s @ eslint_formatter x results\<rparr>) \<and>
      sd_builder x p (Some ''lint'') s0 =
        (0, s\<lparr>console := console s @ eslint_formatter x results\<rparr>))"
proof (intro conjI impI)
  assume l: "load_gulpfile x p s0 = Inr (m, s)"
    and r: "results = map (\<lambda>f. (f, eslint x f)) (glob x (lint_srcs p) (fs s))"
  {
    assume "\<exists>f \<in> set (glob x (lint_srcs p) (fs s)). \<exists>msg \<in> set (eslint x f). severity msg = 2"
    then obtain f msg where "f \<in> set (glob x (lint_srcs p) (fs s))"
      "msg \<in> set (eslint x f)" "severity msg = 2" by blast
    then have c: "errorCount results \<noteq> 0"
      unfolding r by (rule errorCount_pos)
    then show "errorCount results \<noteq> 0" .
    from c show 1: "lint x p s = (Some (ESLintError (errorCount results)),
                    s\<lparr>console := console s @ eslint_formatter x results\<rparr>)"
      by (simp add: lint_result r failAfterError_def)
    show "sd_builder x p (Some ''lint'') s0 =
        (1, s\<lparr>console := console s @ eslint_formatter x results @
                  [''lint: '' @ message (ESLintError (errorCount results))]\<rparr>)"
      by (simp only: sd_builder_lint [OF l] 1) simp
  }
  {
    assume "\<forall>f \<in> set (glob x (lint_srcs p) (fs s)). \<forall>msg \<in> set (eslint x f). severity msg \<noteq> 2"
    then have c: "errorCount results = 0"
      unfolding r by (rule errorCount_zero)
    then show 2: "lint x p s = (None, s\<lparr>console := console s @ eslint_formatter x results\<rparr>)"
      by (simp add: lint_result r failAfterError_def)
    show "sd_builder x p (Some ''lint'') s0 =
        (0, s\<lparr>console := console s @ eslint_formatter x results\<rparr>)"
      by (simp only: sd_builder_lint [OF l] 2) simp
  }
qed

theorem lint_fails_on_error_witness:
  "load_gulpfile strict_externals sample_process sample_state = Inr (sample_gulpfile, loaded_state) \<and>
   load_gulpfile linted_externals sample_process sample_state = Inr (sample_gulpfile, loaded_state) \<and>
   (\<exists>f \<in> set (glob strict_externals (lint_srcs sample_process) (fs loaded_state)).
      \<exists>msg \<in> set (eslint strict_externals f). severity msg = 2) \<and>
   fst (lint strict_externals sample_process loaded_state) = Some (ESLintError 1) \<and>
   sd_builder strict_externals sample_process (Some ''lint'') sample_state =
     (1, loaded_state\<lparr>console := [''main.js'', ''lint: Failed with 1 error'']\<rparr>) \<and>
   concat (map (eslint linted_externals)
     (glob linted_externals (lint_srcs sample_process) (fs loaded_state))) =
     [\<lparr>severity = 1, rule = ''semi''\<rparr>] \<and>
   sd_builder linted_externals sample_process (Some ''lint'') sample_state =
     (0, loaded_state\<lparr>console := [''main.js'']\<rparr>)"
proof -
  have e: "\<exists>f \<in> set (glob strict_externals (lint_srcs sample_process) (fs loaded_state)).
      \<exists>msg \<in> set (eslint strict_externals f). severity msg = 2"
    by (simp add: strict_externals_def linted_externals_def)
  have w: "\<forall>f \<in> set (glob linted_externals (lint_srcs sample_process) (fs loaded_state)).
      \<forall>msg \<in> set (eslint linted_externals f). severity msg \<noteq> 2"
    by (simp add: linted_externals_def sample_externals_def)
  have c: "errorCount (map (\<lambda>f. (f, eslint strict_externals f))
             (glob strict_externals (lint_srcs sample_process) (fs loaded_state))) = 1"
    by (simp add: errorCount_def strict_externals_def linted_externals_def)
  have f1: "eslint_formatter strict_externals (map (\<lambda>f. (f, eslint strict_externals f))
             (glob strict_externals (lint_srcs sample_process) (fs loaded_state))) = [''main.js'']"
    by (simp add: strict_externals_def linted_externals_def sample_externals_def)
  have f2: "eslint_formatter linted_externals (map (\<lambda>f. (f, eslint linted_externals f))
             (glob linted_externals (lint_srcs sample_process) (fs loaded_state))) = [''main.js'']"
    by (simp add: linted_externals_def sample_externals_def)
  have d: "decimal 1 = ''1''" by code_simp
  have k: "console loaded_state = []" by (simp add: sample_defs)
  from lint_fails_on_error [OF strict_loads refl] e c f1 d k
  have 1: "fst (lint strict_externals sample_process loaded_state) = Some (ESLintError 1)"
    and 2: "sd_builder strict_externals sample_process (Some ''lint'') sample_state =
     (1, loaded_state\<lparr>console := [''main.js'', ''lint: Failed with 1 error'']\<rparr>)"
    by simp_all
  from lint_fails_on_error [OF linted_loads refl] w f2 k
  have 3: "sd_builder linted_externals sample_process (Some ''lint'') sample_state =
     (0, loaded_state\<lparr>console := [''main.js'']\<rparr>)"
    by simp
  have v: "concat (map (eslint linted_externals)
     (glob linted_externals (lint_srcs sample_process) (fs loaded_state))) =
     [\<lparr>severity = 1, rule = ''semi''\<rparr>]"
    by (simp add: linted_externals_def sample_externals_def)
  from strict_loads linted_loads e 1 2 v 3 show ?thesis by (intro conjI)
qed

section \<open>The usage listing\<close>

lemma gulp_default:
  "map_of (gulp_tasks x p m) ''default'' = Some (leaf ''default'' (default_task x))"
  by (simp add: gulp_tasks_def)

lemma sd_builder_default:
  "load_gulpfile x p s = Inr (m, s1) \<Longrightarrow>
   sd_builder x p None s = (0, s1\<lparr>console := console s1 @ usage x\<rparr>)"
  by (simp add: sd_builder_def gulp_default leaf_def default_task_def fold_console_log report_def)

lemma load_gulpfile_state:
  "load_gulpfile x p s = Inr (m, s1) \<Longrightarrow>
   s1 = s\<lparr>fs := mkdirp_sync (buildDir p @ ''/_assets/js'') (fs s)\<rparr>"
  by (auto simp: load_gulpfile_def split: sum.splits)

lemma sublist_colored: "sublist t (colored x code t)"
proof (cases "supports_color x")
  case True
  then have "colored x code t = (CHR 0x1B # ''['' @ code @ ''m'') @ t @ (CHR 0x1B # ''[39m'')"
    by (simp add: colored_def)
  then show ?thesis by (metis sublist_appendI)
next
  case False
  then show ?thesis by (simp add: colored_def)
qed

lemma sublist_between: "sublist t u \<Longrightarrow> sublist t (ps @ u @ ss)"
proof -
  assume "sublist t u"
  then obtain a b where "u = a @ t @ b" by (auto simp: sublist_def)
  then have "ps @ u @ ss = (ps @ a) @ t @ (b @ ss)" by simp
  then show ?thesis by (metis sublist_appendI)
qed

lemma usage_lists_tasks:
  "n \<in> set [''build'', ''dev'', ''lint'', ''test''] \<Longrightarrow> \<exists>line \<in> set (usage x). sublist n line"
proof -
  assume n: "n \<in> set [''build'', ''dev'', ''lint'', ''test'']"
  have "sublist ''build'' (''  '' @ green x ''build'' @ ''    build the project'')"
    "sublist ''dev'' (''  '' @ green x ''dev'' @ ''      set up dev environment with auto-recompiling'')"
    "sublist ''lint'' (''  '' @ green x ''lint'' @ ''     lints application source code'')"
    "sublist ''test'' (''  '' @ green x ''test'' @ ''     runs tests'')"
    unfolding green_def by (rule sublist_between, rule sublist_colored)+
  with n show ?thesis
    unfolding usage_def by auto
qed

text \<open>
  C9 as stated fails: in a directory without \<^verbatim>\<open>deps.json\<close> the gulpfile throws while it
  loads, before the default task runs; the process prints the error and exits with status 1.
\<close>

theorem default_without_manifest_counterexample:
  "sd_builder sample_externals sample_process None empty_state =
     (1, empty_state\<lparr>console := [''ENOENT: no such file or directory, open /p/deps.json'']\<rparr>)"
  by (simp add: sd_builder_def empty_does_not_load console_log_def) (simp add: empty_state_def)

text \<open>
  C9, amended: when the gulpfile loads (the manifest \<^verbatim>\<open>deps.json\<close> is there and parses),
  \<^verbatim>\<open>sd-builder\<close> without a task prints the usage listing, in which each of \<^verbatim>\<open>build\<close>, \<^verbatim>\<open>dev\<close>,
  \<^verbatim>\<open>lint\<close> and \<^verbatim>\<open>test\<close> occurs, exits with status 0, and leaves every file as it was.
\<close>

theorem default_prints_usage:
  "load_gulpfile x p s = Inr (m, s1) \<Longrightarrow>
   fst (sd_builder x p None s) = 0 \<and>
   console (snd (sd_builder x p None s)) = console s @ usage x \<and>
   files (fs (snd (sd_builder x p None s))) = files (fs s) \<and>
   (\<forall>n \<in> set [''build'', ''dev'', ''lint'', ''test''].
      \<exists>line \<in> set (usage x). sublist n line)"
proof -
  assume l: "load_gulpfile x p s = Inr (m, s1)"
  note s1 = load_gulpfile_state [OF l]
  have "sd_builder x p None s = (0, s1\<lparr>console := console s1 @ usage x\<rparr>)"
    by (rule sd_builder_default [OF l])
  with s1 have "fst (sd_builder x p None s) = 0"
    "console (snd (sd_builder x p None s)) = console s @ usage x"
    "files (fs (snd (sd_builder x p None s))) = files (fs s)"
    by (simp_all add: mkdirp_sync_def)
  then show ?thesis using usage_lists_tasks [of _ x] by blast
qed

theorem default_prints_usage_witness:
  "load_gulpfile sample_externals sample_process sample_state = Inr (sample_gulpfile, loaded_state) \<and>
   fst (sd_builder sample_externals sample_process None sample_state) = 0 \<and>
   files (fs (snd (sd_builder sample_externals sample_process None sample_state))) =
     files (fs sample_state) \<and>
   (\<exists>line \<in> set (console (snd (sd_builder sample_externals sample_process None sample_state))).
      sublist ''lint'' line)"
proof -
  note t = default_prints_usage [OF sample_loads]
  have "console sample_state = []" by (simp add: sample_defs)
  with t have "console (snd (sd_builder sample_externals sample_process None sample_state)) =
     usage sample_externals" by simp
  moreover from t have "\<exists>line \<in> set (usage sample_externals). sublist ''lint'' line" by simp
  ultimately show ?thesis using t sample_loads by simp
qed

section \<open>The compiler of the scripts\<close>

lemma edited_manifest:
  "read_deps sample_externals sample_process (fs edited_state) =
     Inr \<lparr>js = Some [''redux''], css = Some [''/p/a.css''], fonts = Some [''/p/f.woff'']\<rparr>"
  by (simp add: read_deps_def readFileSync_def edited_state_def update_conv' path_defs
        sample_process_def sample_externals_def)

lemma vendor_written:
  "webpack_compile x (webpack p d) (fs s) = Inr out \<Longrightarrow>
   readFileSync (buildDir p @ ''/_assets/js/vendor.js'')
     (fs (snd (compiler_run x (webpack p d) s))) = Inr (vendor_code out)"
proof -
  assume "webpack_compile x (webpack p d) (fs s) = Inr out"
  note r = compiler_run_fs [OF this]
  show ?thesis unfolding r by (simp add: readFileSync_def files_write_out)
qed

lemma edited_compiles:
  "webpack_compile sample_externals
     (webpack sample_process
        \<lparr>js = Some [''react''], css = Some [''/p/a.css''], fonts = Some [''/p/f.woff'']\<rparr>)
     (fs edited_state) =
   Inr \<lparr>app_code = ''app'', app_map = ''app map'', vendor_code = ''react'',
        vendor_map = ''vendor map''\<rparr>"
  by (simp add: sample_externals_def webpack_def)

lemma edited_vendor:
  "readFileSync ''/p/build/_assets/js/vendor.js''
     (fs (snd (compiler_run sample_externals
       (webpack sample_process
          \<lparr>js = Some [''react''], css = Some [''/p/a.css''], fonts = Some [''/p/f.woff'']\<rparr>)
       edited_state))) = Inr ''react''"
  using vendor_written [OF edited_compiles] by (simp add: buildDir_def sample_process_def)

lemma edited_reloads:
  "\<exists>m s. load_gulpfile sample_externals sample_process edited_state = Inr (m, s) \<and>
     entry_vendor (compiler m) = Some [''redux'']"
  by (simp add: load_gulpfile_def readFileSync_def edited_state_def update_conv' path_defs
        sample_process_def sample_externals_def webpack_def)

text \<open>
  C10: the compiler is built while the gulpfile loads, from the manifest as it is then: its
  vendor entry is the \<^verbatim>\<open>js\<close> list read at load time and its output paths are those of the
  build directory. \<^verbatim>\<open>buildAllScripts\<close> runs that compiler in whatever state it is called; it
  does not read the manifest. In the sample, after the manifest is edited from \<^verbatim>\<open>react\<close> to
  \<^verbatim>\<open>redux\<close>, a run still bundles \<^verbatim>\<open>react\<close>; loading the gulpfile again picks up \<^verbatim>\<open>redux\<close>.
\<close>

theorem compiler_built_at_load:
  "load_gulpfile x p s0 = Inr (m, s1) \<Longrightarrow>
   \<exists>d. read_deps x p (fs s0) = Inr d \<and>
       compiler m = webpack p d \<and>
       entry_vendor (compiler m) = js d \<and>
       output_filename (compiler m) = buildDir p @ ''/_assets/js/app.js'' \<and>
       commons_chunk (compiler m) = (''vendor'', buildDir p @ ''/_assets/js/vendor.js'') \<and>
       (\<forall>s. buildAllScripts x m s = compiler_run x (webpack p d) s)"
  by (auto simp: load_gulpfile_def read_deps_def buildAllScripts_def webpack_def fun_eq_iff
           split: sum.splits)

theorem compiler_built_at_load_witness:
  "load_gulpfile sample_externals sample_process sample_state = Inr (sample_gulpfile, loaded_state) \<and>
   entry_vendor (compiler sample_gulpfile) = Some [''react''] \<and>
   read_deps sample_externals sample_process (fs edited_state) =
     Inr \<lparr>js = Some [''redux''], css = Some [''/p/a.css''], fonts = Some [''/p/f.woff'']\<rparr> \<and>
   buildAllScripts sample_externals sample_gulpfile edited_state =
     compiler_run sample_externals
       (webpack sample_process
          \<lparr>js = Some [''react''], css = Some [''/p/a.css''], fonts = Some [''/p/f.woff'']\<rparr>)
       edited_state \<and>
   readFileSync ''/p/build/_assets/js/vendor.js''
     (fs (snd (buildAllScripts sample_externals sample_gulpfile edited_state))) = Inr ''react'' \<and>
   (\<exists>m s. load_gulpfile sample_externals sample_process edited_state = Inr (m, s) \<and>
      entry_vendor (compiler m) = Some [''redux''])"
proof -
  have r: "read_deps sample_externals sample_process (fs sample_state) =
     Inr \<lparr>js = Some [''react''], css = Some [''/p/a.css''], fonts = Some [''/p/f.woff'']\<rparr>"
    by (simp add: read_deps_def readFileSync_def path_defs sample_defs)
  from compiler_built_at_load [OF sample_loads] r
  have "entry_vendor (compiler sample_gulpfile) = Some [''react'']"
    and "buildAllScripts sample_externals sample_gulpfile edited_state =
     compiler_run sample_externals
       (webpack sample_process
          \<lparr>js = Some [''react''], css = Some [''/p/a.css''], fonts = Some [''/p/f.woff'']\<rparr>)
       edited_state"
    by auto
  with sample_loads edited_manifest edited_vendor edited_reloads show ?thesis by simp
qed

section \<open>The dev task\<close>

lemma dev_tasks:
  "dev x p m =
     run_sequence
       [build x p m, leaf ''test'' (test x p), leaf ''setupDevServer'' (setupDevServer p),
        leaf ''setupWatchers'' (setupWatchers p)]"
  by (simp add: dev_def proGulp_sequence_def proGulp_task_def registry_def builders_def)

lemma fold_gulp_watch:
  "fold (\<lambda>(globs, cb). gulp_watch globs cb) bs s = s\<lparr>watchers := watchers s @ bs\<rparr>"
  by (induction bs arbitrary: s) (simp_all add: gulp_watch_def split: prod.splits)

lemma setupWatchers_state:
  "setupWatchers p s = (None, s\<lparr>watchers := watchers s @ watch_bindings p\<rparr>)"
  by (simp add: setupWatchers_def fold_gulp_watch)

lemma dev_after_build:
  "build x p m s = ([], s1) \<Longrightarrow>
   dev x p m s =
     ([], s1\<lparr>servers := servers s1 @ [server_options p],
              watchers := watchers s1 @ watch_bindings p\<rparr>)"
  by (simp add: dev_tasks leaf_def test_swallows setupDevServer_def setupWatchers_state)

lemma dev_build_failed:
  "fst (build x p m s) \<noteq> [] \<Longrightarrow> dev x p m s = build x p m s"
  by (cases "build x p m s") (simp add: dev_tasks)

lemma leaf_servers:
  "(\<And>s. servers (snd (a s)) = servers s) \<Longrightarrow> servers (snd (leaf n a s)) = servers s"
proof -
  assume a: "\<And>s. servers (snd (a s)) = servers s"
  obtain r s' where r: "a s = (r, s')" by (cases "a s")
  with a [of s] have "servers s' = servers s" by simp
  with r show ?thesis by (cases r) (simp_all add: leaf_def)
qed

lemma run_parallel_servers:
  "(\<And>t s. t \<in> set ts \<Longrightarrow> servers (snd (t s)) = servers s) \<Longrightarrow>
   servers (snd (run_parallel ts s)) = servers s"
proof (induction ts arbitrary: s)
  case Nil
  then show ?case by simp
next
  case (Cons t ts)
  obtain fl s' where t: "t s = (fl, s')" by (cases "t s")
  obtain fl' s'' where r: "run_parallel ts s' = (fl', s'')" by (cases "run_parallel ts s'")
  from Cons.prems [of t s] t have 1: "servers s' = servers s" by simp
  have "servers (snd (run_parallel ts s')) = servers s'"
    by (rule Cons.IH) (simp add: Cons.prems)
  with r have "servers s'' = servers s'" by simp
  with 1 t r show ?case by simp
qed

lemma builders_keep_servers:
  "servers (snd (buildMainHtml x p s)) = servers s"
  "servers (snd (buildAllScripts x m s)) = servers s"
  "servers (snd (buildAppAssets x p s)) = servers s"
  "servers (snd (buildDevAppConfig x p s)) = servers s"
  "servers (snd (buildVendorStyles x p s)) = servers s"
  "servers (snd (buildVendorFonts x p s)) = servers s"
  by (simp_all add: buildMainHtml_def buildAllScripts_def compiler_run_def buildAppAssets_def
        buildDevAppConfig_def writeAppConfig_def console_log_def Let_def
        buildVendorStyles_def buildVendorFonts_def split: sum.splits)

lemma build_servers: "servers (snd (build x p m s)) = servers s"
  unfolding build_tasks
proof (rule run_parallel_servers)
  fix t s
  assume "t \<in> set [leaf ''buildMainHtml'' (buildMainHtml x p),
        leaf ''buildAllScripts'' (buildAllScripts x m),
        leaf ''buildAppAssets'' (buildAppAssets x p),
        leaf ''buildDevAppConfig'' (buildDevAppConfig x p),
        leaf ''buildVendorStyles'' (buildVendorStyles x p),
        leaf ''buildVendorFonts'' (buildVendorFonts x p)]"
  then have "t = leaf ''buildMainHtml'' (buildMainHtml x p) \<or>
        t = leaf ''buildAllScripts'' (buildAllScripts x m) \<or>
        t = leaf ''buildAppAssets'' (buildAppAssets x p) \<or>
        t = leaf ''buildDevAppConfig'' (buildDevAppConfig x p) \<or>
        t = leaf ''buildVendorStyles'' (buildVendorStyles x p) \<or>
        t = leaf ''buildVendorFonts'' (buildVendorFonts x p)" by simp
  then show "servers (snd (t s)) = servers s"
    by (elim disjE) (simp_all add: leaf_servers builders_keep_servers)
qed

lemma registry_tasks:
  "proGulp_task (registry x p m) ''buildMainHtml'' = leaf ''buildMainHtml'' (buildMainHtml x p)"
  "proGulp_task (registry x p m) ''buildAllScripts'' = leaf ''buildAllScripts'' (buildAllScripts x m)"
  "proGulp_task (registry x p m) ''buildAppAssets'' = leaf ''buildAppAssets'' (buildAppAssets x p)"
  "proGulp_task (registry x p m) ''buildDevAppConfig'' =
     leaf ''buildDevAppConfig'' (buildDevAppConfig x p)"
  "proGulp_task (registry x p m) ''buildVendorStyles'' =
     leaf ''buildVendorStyles'' (buildVendorStyles x p)"
  "proGulp_task (registry x p m) ''buildVendorFonts'' =
     leaf ''buildVendorFonts'' (buildVendorFonts x p)"
  "proGulp_task (registry x p m) ''test'' = leaf ''test'' (test x p)"
  by (simp_all add: proGulp_task_def registry_def builders_def)

lemma test_writes_nothing: "\<not> changed (leaf ''test'' (test x p)) s f"
  by (simp add: changed_leaf) (simp add: changed_def test_swallows)

lemma rebuild_writes:
  "compiler m = webpack p d \<Longrightarrow> changed t s f \<Longrightarrow>
   t \<in> set [leaf ''buildMainHtml'' (buildMainHtml x p),
             leaf ''buildAllScripts'' (buildAllScripts x m),
             leaf ''buildAppAssets'' (buildAppAssets x p),
             leaf ''buildDevAppConfig'' (buildDevAppConfig x p),
             leaf ''buildVendorStyles'' (buildVendorStyles x p),
             leaf ''buildVendorFonts'' (buildVendorFonts x p)] \<or>
   t = leaf ''test'' (test x p) \<Longrightarrow>
   prefix (buildDir p @ ''/'') f"
proof (erule disjE)
  assume "compiler m = webpack p d"
    and "t \<in> set [leaf ''buildMainHtml'' (buildMainHtml x p),
             leaf ''buildAllScripts'' (buildAllScripts x m),
             leaf ''buildAppAssets'' (buildAppAssets x p),
             leaf ''buildDevAppConfig'' (buildDevAppConfig x p),
             leaf ''buildVendorStyles'' (buildVendorStyles x p),
             leaf ''buildVendorFonts'' (buildVendorFonts x p)]"
    and "changed t s f"
  then have "f = buildDir p @ ''/index.html'' \<or> f = buildDir p @ ''/app-config.js'' \<or>
   prefix (buildDir p @ ''/_assets/'') f" by (rule builder_writes)
  then show ?thesis by (rule under_build)
next
  assume "t = leaf ''test'' (test x p)" and "changed t s f"
  then show ?thesis using test_writes_nothing [of x p s f] by simp
qed

lemma callback_writes:
  "compiler m = webpack p d \<Longrightarrow> (globs, cb) \<in> set (watch_bindings p) \<Longrightarrow>
   changed (run_callback x p m cb) s f \<Longrightarrow> prefix (buildDir p @ ''/'') f"
proof -
  assume m: "compiler m = webpack p d" and b: "(globs, cb) \<in> set (watch_bindings p)"
    and c: "changed (run_callback x p m cb) s f"
  from b have "cb = Task ''buildMainHtml'' \<or> cb = Task ''buildDevAppConfig'' \<or>
      cb = Parallel [''buildAllScripts'', ''test''] \<or> cb = Task ''buildAppAssets'' \<or>
      cb = Task ''test'' \<or>
      cb = Parallel [''buildAllScripts'', ''buildVendorFonts'', ''buildVendorStyles'', ''test'']"
    unfolding watch_bindings_def by (simp only: set_simps insert_iff empty_iff prod.inject) blast
  then show ?thesis
  proof (elim disjE)
    assume "cb = Task ''buildMainHtml''"
    with c have "changed (leaf ''buildMainHtml'' (buildMainHtml x p)) s f"
      by (simp add: registry_tasks)
    with m show ?thesis by (rule rebuild_writes [where x = x]) simp
  next
    assume "cb = Task ''buildDevAppConfig''"
    with c have "changed (leaf ''buildDevAppConfig'' (buildDevAppConfig x p)) s f"
      by (simp add: registry_tasks)
    with m show ?thesis by (rule rebuild_writes [where x = x]) simp
  next
    assume "cb = Task ''buildAppAssets''"
    with c have "changed (leaf ''buildAppAssets'' (buildAppAssets x p)) s f"
      by (simp add: registry_tasks)
    with m show ?thesis by (rule rebuild_writes [where x = x]) simp
  next
    assume "cb = Task ''test''"
    with c have "changed (leaf ''test'' (test x p)) s f"
      by (simp add: registry_tasks)
    with m show ?thesis by (rule rebuild_writes [where x = x]) simp
  next
    assume "cb = Parallel [''buildAllScripts'', ''test'']"
    with c have "changed (run_parallel [leaf ''buildAllScripts'' (buildAllScripts x m),
                                       leaf ''test'' (test x p)]) s f"
      by (simp add: proGulp_parallel_def registry_tasks)
    from run_parallel_changes [OF this] obtain t s'
      where "t \<in> set [leaf ''buildAllScripts'' (buildAllScripts x m), leaf ''test'' (test x p)]"
        and t: "changed t s' f" by (elim bexE exE)
    then have "t \<in> set [leaf ''buildMainHtml'' (buildMainHtml x p),
             leaf ''buildAllScripts'' (buildAllScripts x m),
             leaf ''buildAppAssets'' (buildAppAssets x p),
             leaf ''buildDevAppConfig'' (buildDevAppConfig x p),
             leaf ''buildVendorStyles'' (buildVendorStyles x p),
             leaf ''buildVendorFonts'' (buildVendorFonts x p)] \<or>
        t = leaf ''test'' (test x p)" by (simp, elim disjE, simp_all)
    with m t show ?thesis by (rule rebuild_writes [where x = x])
  next
    assume "cb = Parallel [''buildAllScripts'', ''buildVendorFonts'', ''buildVendorStyles'', ''test'']"
    with c have "changed (run_parallel [leaf ''buildAllScripts'' (buildAllScripts x m),
                   leaf ''buildVendorFonts'' (buildVendorFonts x p),
                   leaf ''buildVendorStyles'' (buildVendorStyles x p),
                   leaf ''test'' (test x p)]) s f"
      by (simp add: proGulp_parallel_def registry_tasks)
    from run_parallel_changes [OF this] obtain t s'
      where "t \<in> set [leaf ''buildAllScripts'' (buildAllScripts x m),
                   leaf ''buildVendorFonts'' (buildVendorFonts x p),
                   leaf ''buildVendorStyles'' (buildVendorStyles x p),
                   leaf ''test'' (test x p)]"
        and t: "changed t s' f" by (elim bexE exE)
    then have "t \<in> set [leaf ''buildMainHtml'' (buildMainHtml x p),
             leaf ''buildAllScripts'' (buildAllScripts x m),
             leaf ''buildAppAssets'' (buildAppAssets x p),
             leaf ''buildDevAppConfig'' (buildDevAppConfig x p),
             leaf ''buildVendorStyles'' (buildVendorStyles x p),
             leaf ''buildVendorFonts'' (buildVendorFonts x p)] \<or>
        t = leaf ''test'' (test x p)" by (simp, elim disjE, simp_all)
    with m t show ?thesis by (rule rebuild_writes [where x = x])
  qed
qed

lemma run_parallel_fails:
  "t \<in> set ts \<Longrightarrow> (\<And>s. fst (t s) \<noteq> []) \<Longrightarrow> fst (run_parallel ts s) \<noteq> []"
proof (induction ts arbitrary: s)
  case Nil
  then show ?case by simp
next
  case (Cons u us)
  obtain fl s' where u: "u s = (fl, s')" by (cases "u s")
  obtain fl' s'' where r: "run_parallel us s' = (fl', s'')" by (cases "run_parallel us s'")
  show ?case
  proof (cases "t = u")
    case True
    with Cons.prems(2) [of s] u have "fl \<noteq> []" by simp
    with u r show ?thesis by simp
  next
    case False
    with Cons.prems(1) have "t \<in> set us" by simp
    from Cons.IH [OF this Cons.prems(2)] have "fst (run_parallel us s') \<noteq> []" .
    with r have "fl' \<noteq> []" by simp
    with u r show ?thesis by simp
  qed
qed

lemma broken_build_fails:
  "fst (build broken_externals sample_process sample_gulpfile s) \<noteq> []"
  unfolding build_tasks
proof (rule run_parallel_fails)
  show "leaf ''buildAllScripts'' (buildAllScripts broken_externals sample_gulpfile)
          \<in> set [leaf ''buildMainHtml'' (buildMainHtml broken_externals sample_process),
        leaf ''buildAllScripts'' (buildAllScripts broken_externals sample_gulpfile),
        leaf ''buildAppAssets'' (buildAppAssets broken_externals sample_process),
        leaf ''buildDevAppConfig'' (buildDevAppConfig broken_externals sample_process),
        leaf ''buildVendorStyles'' (buildVendorStyles broken_externals sample_process),
        leaf ''buildVendorFonts'' (buildVendorFonts broken_externals sample_process)]"
    by simp
next
  fix s
  show "fst (leaf ''buildAllScripts'' (buildAllScripts broken_externals sample_gulpfile) s) \<noteq> []"
    by (simp add: leaf_def buildAllScripts_def compiler_run_def broken_externals_def)
qed

lemma sample_binding:
  "([''/p/app/main.html''], Task ''buildMainHtml'') \<in> set (watch_bindings sample_process)"
  by (simp add: watch_bindings_def appDir_def sample_process_def)

lemma sample_rebuild:
  "changed (run_callback sample_externals sample_process sample_gulpfile (Task ''buildMainHtml''))
     loaded_state ''/p/build/index.html''"
  using sample_writes_index by (simp add: registry_tasks changed_leaf)

text \<open>
  C7: in \<^verbatim>\<open>dev\<close> the server is set up on the state a completed build leaves, once: when
  \<^verbatim>\<open>build\<close> reports no failure, \<^verbatim>\<open>dev\<close> is \<^verbatim>\<open>setupWatchers\<close> after \<^verbatim>\<open>setupDevServer\<close> after
  \<^verbatim>\<open>build\<close>, it adds exactly one server to those running, and the files are those of the
  build; when \<^verbatim>\<open>build\<close> fails, \<^verbatim>\<open>dev\<close> stops there and starts no server. The server watches
  every file below the build directory, and whatever a watch binding runs changes files
  below the build directory only, so the server sees each rebuild.
\<close>

theorem dev_starts_server_after_build:
  "(fst (build x p m s) = [] \<longrightarrow>
      dev x p m s = ([], snd (setupWatchers p (snd (setupDevServer p (snd (build x p m s)))))) \<and>
      servers (snd (dev x p m s)) = servers s @ [server_options p] \<and>
      fs (snd (dev x p m s)) = fs (snd (build x p m s))) \<and>
   (fst (build x p m s) \<noteq> [] \<longrightarrow>
      dev x p m s = build x p m s \<and> servers (snd (dev x p m s)) = servers s) \<and>
   watched_files (server_options p) = buildDir p @ ''/**/*'' \<and>
   (compiler m = webpack p d \<and> (globs, cb) \<in> set (watch_bindings p) \<and>
    changed (run_callback x p m cb) s' f \<longrightarrow> prefix (buildDir p @ ''/'') f)"
proof (intro conjI impI)
  assume ok: "fst (build x p m s) = []"
  then have b: "build x p m s = ([], snd (build x p m s))" by (cases "build x p m s") simp
  note d = dev_after_build [OF b]
  from d show "dev x p m s =
      ([], snd (setupWatchers p (snd (setupDevServer p (snd (build x p m s))))))"
    by (simp add: setupDevServer_def setupWatchers_state)
  from d show "servers (snd (dev x p m s)) = servers s @ [server_options p]"
    by (simp add: build_servers)
  from d show "fs (snd (dev x p m s)) = fs (snd (build x p m s))" by simp
next
  assume "fst (build x p m s) \<noteq> []"
  then show "dev x p m s = build x p m s" by (rule dev_build_failed)
  then show "servers (snd (dev x p m s)) = servers s" by (simp add: build_servers)
next
  show "watched_files (server_options p) = buildDir p @ ''/**/*''"
    by (simp add: server_options_def)
next
  assume "compiler m = webpack p d \<and> (globs, cb) \<in> set (watch_bindings p) \<and>
    changed (run_callback x p m cb) s' f"
  then have "compiler m = webpack p d" "(globs, cb) \<in> set (watch_bindings p)"
    "changed (run_callback x p m cb) s' f" by simp_all
  then show "prefix (buildDir p @ ''/'') f" by (rule callback_writes)
qed

theorem dev_starts_server_after_build_witness:
  "fst (build sample_externals sample_process sample_gulpfile loaded_state) = [] \<and>
   servers (snd (dev sample_externals sample_process sample_gulpfile loaded_state)) =
     [server_options sample_process] \<and>
   fs (snd (dev sample_externals sample_process sample_gulpfile loaded_state)) = fs built_state \<and>
   fst (build broken_externals sample_process sample_gulpfile loaded_state) \<noteq> [] \<and>
   servers (snd (dev broken_externals sample_process sample_gulpfile loaded_state)) = [] \<and>
   compiler sample_gulpfile =
     webpack sample_process
       \<lparr>js = Some [''react''], css = Some [''/p/a.css''], fonts = Some [''/p/f.woff'']\<rparr> \<and>
   ([''/p/app/main.html''], Task ''buildMainHtml'') \<in> set (watch_bindings sample_process) \<and>
   changed (run_callback sample_externals sample_process sample_gulpfile (Task ''buildMainHtml''))
     loaded_state ''/p/build/index.html'' \<and>
   prefix (buildDir sample_process @ ''/'') ''/p/build/index.html''"
proof -
  have ok: "fst (build sample_externals sample_process sample_gulpfile loaded_state) = []"
    by (simp add: sample_build)
  have none: "servers loaded_state = []" by (simp add: sample_defs)
  note t1 = dev_starts_server_after_build
              [of sample_externals sample_process sample_gulpfile loaded_state
                  "\<lparr>js = Some [''react''], css = Some [''/p/a.css''], fonts = Some [''/p/f.woff'']\<rparr>"
                  "[''/p/app/main.html'']" "Task ''buildMainHtml''" loaded_state
                  "''/p/build/index.html''"]
  from t1 ok
  have "servers (snd (dev sample_externals sample_process sample_gulpfile loaded_state)) =
     servers loaded_state @ [server_options sample_process]"
    and "fs (snd (dev sample_externals sample_process sample_gulpfile loaded_state)) =
     fs (snd (build sample_externals sample_process sample_gulpfile loaded_state))"
    by blast+
  with none
  have a: "servers (snd (dev sample_externals sample_process sample_gulpfile loaded_state)) =
     [server_options sample_process]"
    and b: "fs (snd (dev sample_externals sample_process sample_gulpfile loaded_state)) =
     fs built_state"
    by (simp_all add: sample_build)
  note t2 = dev_starts_server_after_build
              [of broken_externals sample_process sample_gulpfile loaded_state
                  "\<lparr>js = Some [''react''], css = Some [''/p/a.css''], fonts = Some [''/p/f.woff'']\<rparr>"
                  "[''/p/app/main.html'']" "Task ''buildMainHtml''" loaded_state
                  "''/p/build/index.html''"]
  from t2 broken_build_fails [of loaded_state]
  have "servers (snd (dev broken_externals sample_process sample_gulpfile loaded_state)) =
     servers loaded_state"
    by blast
  with none
  have c: "servers (snd (dev broken_externals sample_process sample_gulpfile loaded_state)) = []"
    by simp
  from t1 sample_compiler sample_binding sample_rebuild
  have d: "prefix (buildDir sample_process @ ''/'') ''/p/build/index.html''" by blast
  from ok a b broken_build_fails [of loaded_state] c sample_compiler sample_binding
    sample_rebuild d
  show ?thesis by (intro conjI)
qed

end
